theory Spec2Isabelle
  imports Complex_Main
begin

section \<open>Errors as values\<close>

text \<open>
  Every exception that the notebook's code or the libraries below it can raise is a
  value. \<open>AssertionError\<close> carries the message of the failed \<open>assert\<close>;
  \<open>RuntimeError\<close> and \<open>IndexError\<close> are the shape failures of the tensor library;
  \<open>ExternalError\<close> stands for any failure of a collaborator (the base model, the
  feature extractor, the model loader), which the code lets propagate unchanged.
\<close>

datatype error =
    AssertionError string
  | RuntimeError string
  | IndexError string
  | ValueError string
  | AttributeError string
  | ZeroDivisionError
  | ExternalError string

definition and_then :: "error + 'a \<Rightarrow> ('a \<Rightarrow> error + 'b) \<Rightarrow> error + 'b" where
  "and_then r f = (case r of Inl e \<Rightarrow> Inl e | Inr v \<Rightarrow> f v)"

section \<open>Floating-point values\<close>

text \<open>
  A tensor element is a floating-point value: a finite number, one of the two infinities,
  or NaN. An arithmetic result overflows to an infinity when its magnitude reaches the
  point half a unit in the last place above the largest finite value of the format, and
  is the largest finite value when it lies between the two; an infinity minus an infinity
  and zero times an infinity are NaN; NaN is passed on by every operation. The format is
  an argument of the operations: the tensors of the head are single precision, the
  losses kept by the training loop are Python floats (double precision). Rounding of
  results that stay in range, signed zeros and subnormal numbers are not modelled, and
  sums are taken from left to right, whatever order the library's kernels add in.
\<close>

datatype fl = Fin real | PInf | NInf | NaN

record format =
  largest :: real
  overflow_from :: real

definition float32 :: format where
  "float32 = \<lparr>largest = 2 ^ 128 - 2 ^ 104, overflow_from = 2 ^ 128 - 2 ^ 103\<rparr>"

definition float64 :: format where
  "float64 = \<lparr>largest = 2 ^ 1024 - 2 ^ 971, overflow_from = 2 ^ 1024 - 2 ^ 970\<rparr>"

definition rnd :: "format \<Rightarrow> real \<Rightarrow> fl" where
  "rnd F x =
     (if overflow_from F \<le> x then PInf
      else if x \<le> - overflow_from F then NInf
      else if largest F < x then Fin (largest F)
      else if x < - largest F then Fin (- largest F)
      else Fin x)"

fun add_fl :: "format \<Rightarrow> fl \<Rightarrow> fl \<Rightarrow> fl" where
  "add_fl M (Fin x) (Fin y) = rnd M (x + y)"
| "add_fl M (Fin x) PInf = PInf"
| "add_fl M (Fin x) NInf = NInf"
| "add_fl M PInf (Fin y) = PInf"
| "add_fl M PInf PInf = PInf"
| "add_fl M PInf NInf = NaN"
| "add_fl M NInf (Fin y) = NInf"
| "add_fl M NInf PInf = NaN"
| "add_fl M NInf NInf = NInf"
| "add_fl M NaN b = NaN"
| "add_fl M a NaN = NaN"

definition inf_times :: "real \<Rightarrow> fl" where
  "inf_times x = (if x = 0 then NaN else if 0 < x then PInf else NInf)"

fun mul_fl :: "format \<Rightarrow> fl \<Rightarrow> fl \<Rightarrow> fl" where
  "mul_fl M (Fin x) (Fin y) = rnd M (x * y)"
| "mul_fl M (Fin x) PInf = inf_times x"
| "mul_fl M (Fin x) NInf = inf_times (- x)"
| "mul_fl M PInf (Fin y) = inf_times y"
| "mul_fl M PInf PInf = PInf"
| "mul_fl M PInf NInf = NInf"
| "mul_fl M NInf (Fin y) = inf_times (- y)"
| "mul_fl M NInf PInf = NInf"
| "mul_fl M NInf NInf = PInf"
| "mul_fl M NaN b = NaN"
| "mul_fl M a NaN = NaN"

fun div_count :: "format \<Rightarrow> fl \<Rightarrow> nat \<Rightarrow> fl" where
  \<comment> \<open>division of a value by a positive count; by zero it is NaN or an infinity\<close>
  "div_count M (Fin x) n =
     (if n = 0 then (if x = 0 then NaN else if 0 < x then PInf else NInf)
      else rnd M (x / real n))"
| "div_count M PInf n = PInf"
| "div_count M NInf n = NInf"
| "div_count M NaN n = NaN"

fun max_fl :: "fl \<Rightarrow> fl \<Rightarrow> fl" where
  \<comment> \<open>the maximum as the pooling kernel takes it: NaN wins\<close>
  "max_fl (Fin x) (Fin y) = Fin (max x y)"
| "max_fl (Fin x) PInf = PInf"
| "max_fl (Fin x) NInf = Fin x"
| "max_fl PInf (Fin y) = PInf"
| "max_fl PInf PInf = PInf"
| "max_fl PInf NInf = PInf"
| "max_fl NInf (Fin y) = Fin y"
| "max_fl NInf PInf = PInf"
| "max_fl NInf NInf = NInf"
| "max_fl NaN b = NaN"
| "max_fl a NaN = NaN"

fun relu_fl :: "fl \<Rightarrow> fl" where
  "relu_fl (Fin x) = Fin (max 0 x)"
| "relu_fl PInf = PInf"
| "relu_fl NInf = Fin 0"
| "relu_fl NaN = NaN"

fun sigmoid_fl :: "fl \<Rightarrow> fl" where
  "sigmoid_fl (Fin x) = Fin (1 / (1 + exp (- x)))"
| "sigmoid_fl PInf = Fin 1"
| "sigmoid_fl NInf = Fin 0"
| "sigmoid_fl NaN = NaN"

definition sum_fl :: "format \<Rightarrow> fl list \<Rightarrow> fl" where
  "sum_fl M xs = foldl (add_fl M) (Fin 0) xs"

abbreviation add32 :: "fl \<Rightarrow> fl \<Rightarrow> fl" where
  "add32 \<equiv> add_fl float32"

abbreviation mul32 :: "fl \<Rightarrow> fl \<Rightarrow> fl" where
  "mul32 \<equiv> mul_fl float32"

abbreviation sum32 :: "fl list \<Rightarrow> fl" where
  "sum32 \<equiv> sum_fl float32"

section \<open>Tensors, parameters and the parameter store\<close>

text \<open>
  A tensor is its shape together with its elements, read by index list. Elements at
  indices outside the shape are never read by the operations.
\<close>

record tensor =
  shape :: "nat list"
  elems :: "nat list \<Rightarrow> fl"

text \<open>
  Parameters are objects shared between the modules that own them and the optimizer
  that updates them, so they live in a store. A reference says which module tree created
  the parameter: the pretrained Whisper model (\<open>Base\<close>) or the
  \<open>TurnEndClassifier\<close> (\<open>Head\<close>); the two are built by separate constructors and
  share no parameter object.
\<close>

datatype pref = Base nat | Head nat

record parameter =
  data :: "nat list \<Rightarrow> fl"
  grad :: "(nat list \<Rightarrow> fl) option"
  requires_grad :: bool

type_synonym store = "pref \<Rightarrow> parameter"

section \<open>The layers used by the head\<close>

subsection \<open>nn.Linear\<close>

record Linear =
  in_features :: nat
  out_features :: nat
  weight :: pref
  bias :: pref

definition Linear_forward :: "store \<Rightarrow> Linear \<Rightarrow> tensor \<Rightarrow> error + tensor" where
  "Linear_forward \<sigma> L x =
     (if shape x = [] \<or> last (shape x) \<noteq> in_features L
      then Inl (RuntimeError ''mat1 and mat2 shapes cannot be multiplied'')
      else Inr \<lparr>shape = butlast (shape x) @ [out_features L],
                elems = (\<lambda>idx.
                  add32
                    (sum32 (map (\<lambda>i. mul32 (data (\<sigma> (weight L)) [last idx, i])
                                         (elems x (butlast idx @ [i])))
                              [0..<in_features L]))
                    (data (\<sigma> (bias L)) [last idx]))\<rparr>)"

subsection \<open>nn.Conv1d\<close>

record Conv1d =
  in_channels :: nat
  out_channels :: nat
  kernel_size :: nat
  stride :: nat
  padding :: nat
  conv_weight :: pref
  conv_bias :: pref

definition padded_read :: "tensor \<Rightarrow> nat \<Rightarrow> nat \<Rightarrow> nat \<Rightarrow> nat \<Rightarrow> nat \<Rightarrow> fl" where
  "padded_read x p l b c i = (if i < p \<or> l + p \<le> i then Fin 0 else elems x [b, c, i - p])"

text \<open>
  The output length of a convolution is \<open>(l + 2 * padding - kernel_size) div stride + 1\<close>;
  an input whose zero-padded length is below the kernel size is refused with a
  \<open>RuntimeError\<close>. The input is the batched, channels-first layout \<open>[batch, channels, length]\<close>
  that \<open>transpose(1, 2)\<close> has just produced.
\<close>

definition Conv1d_forward :: "store \<Rightarrow> Conv1d \<Rightarrow> tensor \<Rightarrow> error + tensor" where
  "Conv1d_forward \<sigma> C x =
     (case shape x of
        [n, c, l] \<Rightarrow>
          if c \<noteq> in_channels C
          then Inl (RuntimeError ''expected input to have in_channels channels'')
          else if stride C = 0
          then Inl (RuntimeError ''non-positive stride is not supported'')
          else if l + 2 * padding C < kernel_size C
          then Inl (RuntimeError ''Kernel size cannot be greater than actual input size'')
          else Inr \<lparr>shape = [n, out_channels C,
                             (l + 2 * padding C - kernel_size C) div stride C + 1],
                    elems = (\<lambda>idx. case idx of
                       [b, oc, t] \<Rightarrow>
                         add32
                           (sum32 (map (\<lambda>ci. sum32 (map (\<lambda>j.
                                     mul32 (data (\<sigma> (conv_weight C)) [oc, ci, j])
                                       (padded_read x (padding C) l b ci (t * stride C + j)))
                                     [0..<kernel_size C]))
                                   [0..<c]))
                           (data (\<sigma> (conv_bias C)) [oc])
                     | _ \<Rightarrow> Fin 0)\<rparr>
      | _ \<Rightarrow> Inl (RuntimeError ''Expected 3D (batched) input to conv1d''))"

subsection \<open>Elementwise layers\<close>

definition relu :: "tensor \<Rightarrow> tensor" where
  "relu x = x\<lparr>elems := (\<lambda>idx. relu_fl (elems x idx))\<rparr>"

definition sigmoid :: "tensor \<Rightarrow> tensor" where
  "sigmoid x = x\<lparr>elems := (\<lambda>idx. sigmoid_fl (elems x idx))\<rparr>"

subsection \<open>nn.Sequential\<close>

datatype module = ConvM Conv1d | ReLU | LinearM Linear | Sigmoid

fun module_forward :: "store \<Rightarrow> module \<Rightarrow> tensor \<Rightarrow> error + tensor" where
  "module_forward \<sigma> (ConvM C) x = Conv1d_forward \<sigma> C x"
| "module_forward \<sigma> ReLU x = Inr (relu x)"
| "module_forward \<sigma> (LinearM L) x = Linear_forward \<sigma> L x"
| "module_forward \<sigma> Sigmoid x = Inr (sigmoid x)"

fun Sequential_forward :: "store \<Rightarrow> module list \<Rightarrow> tensor \<Rightarrow> error + tensor" where
  "Sequential_forward \<sigma> [] x = Inr x"
| "Sequential_forward \<sigma> (m # ms) x = and_then (module_forward \<sigma> m x) (Sequential_forward \<sigma> ms)"

subsection \<open>nn.AdaptiveMaxPool1d, transpose, squeeze, cat\<close>

text \<open>
  Adaptive max pooling to \<open>k\<close> outputs takes, for output position \<open>i\<close>, the maximum over
  the input positions from \<open>i * l div k\<close> up to (excluding) the ceiling of
  \<open>(i + 1) * l / k\<close>. An input with a channel count or a length of zero is refused.
\<close>

definition max_over :: "(nat \<Rightarrow> fl) \<Rightarrow> nat \<Rightarrow> nat \<Rightarrow> fl" where
  "max_over f lo hi = fold (\<lambda>t m. max_fl m (f t)) [Suc lo..<hi] (f lo)"

definition AdaptiveMaxPool1d_forward :: "nat \<Rightarrow> tensor \<Rightarrow> error + tensor" where
  "AdaptiveMaxPool1d_forward k x =
     (case shape x of
        [n, c, l] \<Rightarrow>
          if c = 0 \<or> l = 0
          then Inl (RuntimeError ''Expected input to have non-zero size for non-batch dimensions'')
          else Inr \<lparr>shape = [n, c, k],
                    elems = (\<lambda>idx. case idx of
                       [b, ch, i] \<Rightarrow>
                         max_over (\<lambda>t. elems x [b, ch, t]) (i * l div k) (((i + 1) * l + k - 1) div k)
                     | _ \<Rightarrow> Fin 0)\<rparr>
      | _ \<Rightarrow> Inl (RuntimeError ''Expected 3D (batched) input to adaptive_max_pool1d''))"

definition transpose_1_2 :: "tensor \<Rightarrow> error + tensor" where
  "transpose_1_2 x =
     (case shape x of
        n # a # b # rest \<Rightarrow>
          Inr \<lparr>shape = n # b # a # rest,
               elems = (\<lambda>idx. case idx of
                  i # j # k # r \<Rightarrow> elems x (i # k # j # r)
                | _ \<Rightarrow> Fin 0)\<rparr>
      | _ \<Rightarrow> Inl (IndexError ''Dimension out of range''))"

definition squeeze_last :: "tensor \<Rightarrow> tensor" where
  "squeeze_last x =
     (if shape x \<noteq> [] \<and> last (shape x) = 1
      then \<lparr>shape = butlast (shape x), elems = (\<lambda>idx. elems x (idx @ [0]))\<rparr>
      else x)"

definition cat_dim1 :: "tensor \<Rightarrow> tensor \<Rightarrow> error + tensor" where
  "cat_dim1 x y =
     (case (shape x, shape y) of
        (n # a # rest, n' # b # rest') \<Rightarrow>
          if n = n' \<and> rest = rest'
          then Inr \<lparr>shape = n # (a + b) # rest,
                    elems = (\<lambda>idx. case idx of
                       i # j # r \<Rightarrow> if j < a then elems x (i # j # r) else elems y (i # (j - a) # r)
                     | _ \<Rightarrow> Fin 0)\<rparr>
          else Inl (RuntimeError ''Sizes of tensors must match except in dimension 1'')
      | _ \<Rightarrow> Inl (IndexError ''Dimension out of range''))"

section \<open>TurnEndClassifier\<close>

record TurnEndClassifier =
  encoder_reduce :: Linear
  decoder_reduce :: Linear
  encoder_conv :: "module list"
  encoder_pool :: nat
  decoder_conv :: "module list"
  decoder_pool :: nat
  fc :: "module list"

text \<open>
  The constructor creates eighteen parameter tensors, in registration order: weight and
  bias of \<open>encoder_reduce\<close>, \<open>decoder_reduce\<close>, the three encoder convolutions, the two
  decoder convolutions and the two linear layers of \<open>fc\<close>. Their initial values are
  whatever the store holds at these references.
\<close>

definition TurnEndClassifier_init :: "nat \<Rightarrow> nat \<Rightarrow> nat \<Rightarrow> TurnEndClassifier" where
  "TurnEndClassifier_init encoder_dim decoder_dim hidden_dim =
     \<lparr>encoder_reduce = \<lparr>in_features = encoder_dim, out_features = hidden_dim,
                         weight = Head 0, bias = Head 1\<rparr>,
      decoder_reduce = \<lparr>in_features = decoder_dim, out_features = hidden_dim,
                         weight = Head 2, bias = Head 3\<rparr>,
      encoder_conv =
        [ConvM \<lparr>in_channels = hidden_dim, out_channels = hidden_dim, kernel_size = 5,
                stride = 3, padding = 1, conv_weight = Head 4, conv_bias = Head 5\<rparr>,
         ReLU,
         ConvM \<lparr>in_channels = hidden_dim, out_channels = hidden_dim, kernel_size = 5,
                stride = 3, padding = 1, conv_weight = Head 6, conv_bias = Head 7\<rparr>,
         ReLU,
         ConvM \<lparr>in_channels = hidden_dim, out_channels = hidden_dim, kernel_size = 5,
                stride = 3, padding = 1, conv_weight = Head 8, conv_bias = Head 9\<rparr>,
         ReLU],
      encoder_pool = 1,
      decoder_conv =
        [ConvM \<lparr>in_channels = hidden_dim, out_channels = hidden_dim, kernel_size = 3,
                stride = 1, padding = 1, conv_weight = Head 10, conv_bias = Head 11\<rparr>,
         ReLU,
         ConvM \<lparr>in_channels = hidden_dim, out_channels = hidden_dim, kernel_size = 3,
                stride = 1, padding = 1, conv_weight = Head 12, conv_bias = Head 13\<rparr>,
         ReLU],
      decoder_pool = 1,
      fc =
        [LinearM \<lparr>in_features = 2 * hidden_dim, out_features = hidden_dim,
                  weight = Head 14, bias = Head 15\<rparr>,
         ReLU,
         LinearM \<lparr>in_features = hidden_dim, out_features = 1,
                  weight = Head 16, bias = Head 17\<rparr>,
         Sigmoid]\<rparr>"

definition encoder_features :: "store \<Rightarrow> TurnEndClassifier \<Rightarrow> tensor \<Rightarrow> error + tensor" where
  "encoder_features \<sigma> tec encoder_outputs =
     and_then (transpose_1_2 encoder_outputs) (\<lambda>t.
     and_then (Sequential_forward \<sigma> (encoder_conv tec) t) (\<lambda>c.
     and_then (AdaptiveMaxPool1d_forward (encoder_pool tec) c) (\<lambda>p.
     Inr (squeeze_last p))))"

definition decoder_features :: "store \<Rightarrow> TurnEndClassifier \<Rightarrow> tensor \<Rightarrow> error + tensor" where
  "decoder_features \<sigma> tec decoder_outputs =
     and_then (transpose_1_2 decoder_outputs) (\<lambda>t.
     and_then (Sequential_forward \<sigma> (decoder_conv tec) t) (\<lambda>c.
     and_then (AdaptiveMaxPool1d_forward (decoder_pool tec) c) (\<lambda>p.
     Inr (squeeze_last p))))"

text \<open>
  \<open>forward\<close> in the source's order: both reductions, the encoder stream, the decoder
  stream, concatenation, \<open>fc\<close>. The first failing step decides the error.
\<close>

definition forward :: "store \<Rightarrow> TurnEndClassifier \<Rightarrow> tensor \<Rightarrow> tensor \<Rightarrow> error + tensor" where
  "forward \<sigma> tec encoder_outputs decoder_outputs =
     and_then (Linear_forward \<sigma> (encoder_reduce tec) encoder_outputs) (\<lambda>enc.
     and_then (Linear_forward \<sigma> (decoder_reduce tec) decoder_outputs) (\<lambda>dec.
     and_then (encoder_features \<sigma> tec enc) (\<lambda>ef.
     and_then (decoder_features \<sigma> tec dec) (\<lambda>df.
     and_then (cat_dim1 ef df) (\<lambda>combined_features.
     Sequential_forward \<sigma> (fc tec) combined_features)))))"

section \<open>CustomWhisperModel\<close>

text \<open>
  The pretrained Whisper model is a collaborator. Its forward pass is the field
  \<open>whisper_forward\<close>: a function of the module's mode, the values of the base
  parameters, the acoustic features, the decoder seed tokens and the optional attention
  mask, which either fails or returns the outputs the head reads. The model's
  \<open>training\<close> flag is the mode of the Whisper modules; \<open>head_training\<close> is the mode of
  the attached \<open>TurnEndClassifier\<close>, which has no layer that looks at it.
\<close>

record whisper_outputs =
  logits :: tensor
  encoder_last_hidden_state :: tensor
  decoder_hidden_states :: "tensor list"

record WhisperConfig =
  d_model :: nat
  decoder_start_token_id :: int

record CustomWhisperModel =
  config :: WhisperConfig
  training :: bool
  whisper_forward :: "bool \<Rightarrow> (nat \<Rightarrow> nat list \<Rightarrow> fl) \<Rightarrow> tensor \<Rightarrow> int list list
                        \<Rightarrow> tensor option \<Rightarrow> error + whisper_outputs"
  turn_end_classifier :: "TurnEndClassifier option"
  head_training :: bool

text \<open>
  \<open>from_pretrained\<close> calls the inherited loader, which builds the model (with no head,
  the constructor's default) and puts the pretrained weights into the store, then assigns
  the head. The inherited loader is the first argument.
\<close>

definition from_pretrained ::
  "(string \<Rightarrow> store \<Rightarrow> error + CustomWhisperModel \<times> store) \<Rightarrow> string
     \<Rightarrow> TurnEndClassifier option \<Rightarrow> store \<Rightarrow> error + CustomWhisperModel \<times> store" where
  "from_pretrained super_from_pretrained pretrained_model_name_or_path tec \<sigma> =
     and_then (super_from_pretrained pretrained_model_name_or_path \<sigma>) (\<lambda>(model, \<sigma>').
       Inr (model\<lparr>turn_end_classifier := tec\<rparr>, \<sigma>'))"

text \<open>
  \<open>forward_with_turn_end\<close>: the assertion, the base model's forward pass with hidden
  states returned, the last encoder and the last decoder hidden state, the head. Of the
  keyword arguments handed through to the base model, the attention mask (the one the
  pipeline passes) is the one modelled.
\<close>

definition base_values :: "store \<Rightarrow> nat \<Rightarrow> nat list \<Rightarrow> fl" where
  "base_values \<sigma> i = data (\<sigma> (Base i))"

definition forward_with_turn_end ::
  "CustomWhisperModel \<Rightarrow> store \<Rightarrow> tensor \<Rightarrow> int list list \<Rightarrow> tensor option
     \<Rightarrow> error + whisper_outputs \<times> tensor" where
  "forward_with_turn_end self \<sigma> input_feats decoder_input_ids attn_mask =
     (case turn_end_classifier self of
        None \<Rightarrow> Inl (AssertionError
                   ''TurnEndClassifier must be set before calling forward_with_turn_end'')
      | Some tec \<Rightarrow>
          and_then (whisper_forward self (training self) (base_values \<sigma>)
                      input_feats decoder_input_ids attn_mask) (\<lambda>outs.
            case decoder_hidden_states outs of
              [] \<Rightarrow> Inl (IndexError ''tuple index out of range'')
            | hs \<Rightarrow>
                and_then (forward \<sigma> tec (encoder_last_hidden_state outs) (last hs))
                  (\<lambda>turn_end_predictions. Inr (outs, turn_end_predictions))))"

section \<open>TurnEndPipeline\<close>

subsection \<open>Python slicing and conversions\<close>

definition py_int :: "real \<Rightarrow> int" where
  "py_int x = (if 0 \<le> x then \<lfloor>x\<rfloor> else \<lceil>x\<rceil>)"

definition slice_from :: "int \<Rightarrow> 'a list \<Rightarrow> 'a list" where
  \<comment> \<open>\<open>xs[start:]\<close>: a negative start counts from the end and is clamped at the front.\<close>
  "slice_from start xs =
     (let n = int (length xs);
          s = (if start < 0 then max 0 (start + n) else min start n)
      in drop (nat s) xs)"

definition slice_to :: "int \<Rightarrow> 'a list \<Rightarrow> 'a list" where
  \<comment> \<open>\<open>xs[:stop]\<close>.\<close>
  "slice_to stop xs =
     (let n = int (length xs);
          e = (if stop < 0 then max 0 (stop + n) else min stop n)
      in take (nat e) xs)"

subsection \<open>librosa.load\<close>

text \<open>
  A sound file has the sampling rate it was recorded at and its samples.
  \<open>librosa.load(path, sr=target)\<close> reads the file and, when the file's rate is not the
  target, resamples it to the target; it returns the samples with the target rate. The
  resampler itself is a collaborator.
\<close>

record wav =
  native_rate :: int
  samples :: "real list"

record librosa =
  files :: "string \<Rightarrow> wav option"
  resample :: "real list \<Rightarrow> int \<Rightarrow> int \<Rightarrow> real list"

definition librosa_load :: "librosa \<Rightarrow> string \<Rightarrow> int \<Rightarrow> error + real list \<times> int" where
  "librosa_load lib path sr =
     (case files lib path of
        None \<Rightarrow> Inl (ExternalError ''No such file or directory'')
      | Some w \<Rightarrow>
          Inr (if native_rate w = sr then samples w
               else resample lib (samples w) (native_rate w) sr, sr))"

subsection \<open>The pipeline\<close>

datatype audio = Path string | Array "real list"

record features =
  input_features :: tensor
  attention_mask :: "tensor option"

record TurnEndPipeline =
  model :: CustomWhisperModel
  feature_extractor :: "real list \<Rightarrow> int \<Rightarrow> error + features"
  max_duration :: real
  sampling_rate :: int

definition TurnEndPipeline_init ::
  "CustomWhisperModel \<Rightarrow> (real list \<Rightarrow> int \<Rightarrow> error + features) \<Rightarrow> TurnEndPipeline" where
  "TurnEndPipeline_init m fe =
     \<lparr>model = m, feature_extractor = fe, max_duration = 30, sampling_rate = 16000\<rparr>"

text \<open>
  \<open>int(self.max_duration * self.sampling_rate)\<close>; the product of the defaults, 30.0 and
  16000, is exact.
\<close>

definition max_samples :: "TurnEndPipeline \<Rightarrow> int" where
  "max_samples self = py_int (max_duration self * real_of_int (sampling_rate self))"

definition prepare_audio_features ::
  "librosa \<Rightarrow> TurnEndPipeline \<Rightarrow> audio \<Rightarrow> error + features" where
  "prepare_audio_features lib self a =
     and_then
       (case a of
          Path p \<Rightarrow>
            and_then (librosa_load lib p (sampling_rate self)) (\<lambda>(audio_array, sr).
              if sr \<noteq> 16000
              then Inl (AssertionError ''Expected sampling rate of 16kHz'')
              else Inr audio_array)
        | Array audio_array \<Rightarrow> Inr audio_array)
       (\<lambda>audio_array.
          feature_extractor self (slice_from (- max_samples self) audio_array)
            (sampling_rate self))"

text \<open>\<open>squeeze()\<close> drops every dimension of size one; \<open>item()\<close> needs exactly one element.\<close>

fun expand_index :: "nat list \<Rightarrow> nat list \<Rightarrow> nat list" where
  "expand_index [] idx = []"
| "expand_index (d # ds) idx =
     (if d = 1 then 0 # expand_index ds idx
      else (case idx of [] \<Rightarrow> [] | i # rest \<Rightarrow> i # expand_index ds rest))"

definition squeeze :: "tensor \<Rightarrow> tensor" where
  "squeeze x = \<lparr>shape = filter (\<lambda>d. d \<noteq> 1) (shape x),
                elems = (\<lambda>idx. elems x (expand_index (shape x) idx))\<rparr>"

definition item :: "tensor \<Rightarrow> error + fl" where
  "item x =
     (if prod_list (shape x) = 1 then Inr (elems x (replicate (length (shape x)) 0))
      else Inl (RuntimeError ''a Tensor with more than one element cannot be converted to Scalar''))"

definition decoder_seed :: "TurnEndPipeline \<Rightarrow> int list list" where
  "decoder_seed self = [ [decoder_start_token_id (config (model self))] ]"

record turn_end_result =
  turn_end_probability :: fl

definition TurnEndPipeline_call ::
  "librosa \<Rightarrow> TurnEndPipeline \<Rightarrow> store \<Rightarrow> audio \<Rightarrow> error + turn_end_result" where
  "TurnEndPipeline_call lib self \<sigma> a =
     and_then (prepare_audio_features lib self a) (\<lambda>feats.
     and_then (forward_with_turn_end (model self) \<sigma> (input_features feats)
                 (decoder_seed self) (attention_mask feats)) (\<lambda>(_, turn_end_predictions).
     and_then (item (squeeze turn_end_predictions)) (\<lambda>p.
     Inr \<lparr>turn_end_probability = p\<rparr>)))"

section \<open>Training\<close>

subsection \<open>Parameters of a module\<close>

definition Linear_parameters :: "Linear \<Rightarrow> pref list" where
  "Linear_parameters L = [weight L, bias L]"

fun module_parameters :: "module \<Rightarrow> pref list" where
  "module_parameters (ConvM C) = [conv_weight C, conv_bias C]"
| "module_parameters (LinearM L) = Linear_parameters L"
| "module_parameters ReLU = []"
| "module_parameters Sigmoid = []"

definition TurnEndClassifier_parameters :: "TurnEndClassifier \<Rightarrow> pref list" where
  "TurnEndClassifier_parameters tec =
     Linear_parameters (encoder_reduce tec) @ Linear_parameters (decoder_reduce tec)
     @ concat (map module_parameters (encoder_conv tec))
     @ concat (map module_parameters (decoder_conv tec))
     @ concat (map module_parameters (fc tec))"

subsection \<open>Optimizer, loss and backward pass\<close>

text \<open>
  An optimizer holds references to the parameters it was built over, a learning rate and
  a state per parameter. Its update rule (Adam's, in the notebook) is a collaborator: from
  the learning rate, the state, the parameter's values and its gradient it gives the new
  values and the new state. \<open>zero_grad\<close> clears and \<open>step\<close> updates exactly the
  referenced parameters; \<open>step\<close> skips a parameter that has no gradient.
\<close>

record 's optimizer =
  opt_params :: "pref list"
  lr :: real
  opt_state :: "pref \<Rightarrow> 's"
  update_rule :: "real \<Rightarrow> 's \<Rightarrow> (nat list \<Rightarrow> fl) \<Rightarrow> (nat list \<Rightarrow> fl)
                    \<Rightarrow> (nat list \<Rightarrow> fl) \<times> 's"

definition zero_grad :: "'s optimizer \<Rightarrow> store \<Rightarrow> store" where
  "zero_grad opt \<sigma> = fold (\<lambda>a \<sigma>'. \<sigma>'(a := (\<sigma>' a)\<lparr>grad := None\<rparr>)) (opt_params opt) \<sigma>"

definition step_param :: "pref \<Rightarrow> 's optimizer \<times> store \<Rightarrow> 's optimizer \<times> store" where
  "step_param a os =
     (case os of (opt, \<sigma>) \<Rightarrow>
        (case grad (\<sigma> a) of
           None \<Rightarrow> (opt, \<sigma>)
         | Some g \<Rightarrow>
             (case update_rule opt (lr opt) (opt_state opt a) (data (\<sigma> a)) g of
                (d', s') \<Rightarrow>
                  (opt\<lparr>opt_state := (opt_state opt)(a := s')\<rparr>,
                   \<sigma>(a := (\<sigma> a)\<lparr>data := d'\<rparr>)))))"

definition optimizer_step :: "'s optimizer \<Rightarrow> store \<Rightarrow> 's optimizer \<times> store" where
  "optimizer_step opt \<sigma> = fold step_param (opt_params opt) (opt, \<sigma>)"

text \<open>
  \<open>loss.backward()\<close> adds, for every parameter that took part in the computation and has
  \<open>requires_grad\<close> set, the gradient of the loss to the parameter's \<open>grad\<close>. The
  gradients themselves come from the automatic differentiation of the tensor library:
  \<open>g a\<close> is the gradient for parameter \<open>a\<close>, or \<open>None\<close> when \<open>a\<close> took no part.
  (The library refuses a backward pass in which no parameter at all is trainable; the
  parameters of a freshly built head always are.)
\<close>

definition backward :: "(pref \<Rightarrow> (nat list \<Rightarrow> fl) option) \<Rightarrow> store \<Rightarrow> store" where
  "backward g \<sigma> =
     (\<lambda>a. case g a of
             None \<Rightarrow> \<sigma> a
           | Some d \<Rightarrow>
               if requires_grad (\<sigma> a)
               then (\<sigma> a)\<lparr>grad := Some (case grad (\<sigma> a) of
                                            None \<Rightarrow> d
                                          | Some old \<Rightarrow> (\<lambda>idx. add32 (old idx) (d idx)))\<rparr>
               else \<sigma> a)"

fun indices :: "nat list \<Rightarrow> nat list list" where
  "indices [] = [ [] ]"
| "indices (d # ds) = concat (map (\<lambda>i. map ((#) i) (indices ds)) [0..<d])"

text \<open>
  \<open>nn.BCELoss\<close> with its default mean reduction: the two logarithms are clamped below at
  \<open>-100\<close>, a prediction outside \<open>[0, 1]\<close> (NaN included) is refused.
\<close>

definition clamp_log :: "real \<Rightarrow> real" where
  "clamp_log q = (if q \<le> 0 then - 100 else max (ln q) (- 100))"

fun neg_fl :: "fl \<Rightarrow> fl" where
  "neg_fl (Fin x) = Fin (- x)"
| "neg_fl PInf = NInf"
| "neg_fl NInf = PInf"
| "neg_fl NaN = NaN"

fun in_unit :: "fl \<Rightarrow> bool" where
  "in_unit (Fin p) = (0 \<le> p \<and> p \<le> 1)"
| "in_unit v = False"

fun bce :: "fl \<Rightarrow> fl \<Rightarrow> fl" where
  "bce (Fin p) y =
     neg_fl (add32 (mul32 y (Fin (clamp_log p)))
                   (mul32 (add32 (Fin 1) (neg_fl y)) (Fin (clamp_log (1 - p)))))"
| "bce v y = NaN"

definition BCELoss :: "tensor \<Rightarrow> tensor \<Rightarrow> error + fl" where
  "BCELoss pred target =
     (if shape pred \<noteq> shape target
      then Inl (ValueError ''Using a target size that is different to the input size'')
      else if \<exists>idx \<in> set (indices (shape pred)). \<not> in_unit (elems pred idx)
      then Inl (RuntimeError ''all elements of input should be between 0 and 1'')
      else Inr (div_count float32
                  (sum32 (map (\<lambda>idx. bce (elems pred idx) (elems target idx))
                            (indices (shape pred))))
                  (length (indices (shape pred)))))"

subsection \<open>The training loop\<close>

record tokenizer =
  pad_token_id :: int

record 's train_state =
  st_store :: store
  st_model :: CustomWhisperModel
  st_optimizer :: "'s optimizer"

type_synonym autograd =
  "CustomWhisperModel \<Rightarrow> store \<Rightarrow> tensor \<Rightarrow> int list list \<Rightarrow> tensor
     \<Rightarrow> pref \<Rightarrow> (nat list \<Rightarrow> fl) option"

definition create_training_samples ::
  "librosa \<Rightarrow> string \<Rightarrow> error + real list \<times> real list" where
  "create_training_samples lib audio_path =
     and_then (librosa_load lib audio_path 16000) (\<lambda>(a, sr).
       Inr (a, slice_to (py_int (4 * real_of_int sr)) a))"

text \<open>
  An exception leaves the state as it is when it is raised, so every function of the loop
  returns the state beside its result or error. A label is a Python float, made a
  single-precision target tensor; the loss of a sample is read back as a Python float
  and the epoch's sum and mean are double-precision arithmetic.
\<close>

fun train_samples ::
  "autograd \<Rightarrow> (real list \<Rightarrow> int \<Rightarrow> error + features) \<Rightarrow> tokenizer
     \<Rightarrow> (tensor \<Rightarrow> tensor \<Rightarrow> error + fl) \<Rightarrow> (real list \<times> real) list
     \<Rightarrow> 's train_state \<Rightarrow> fl \<Rightarrow> (error + fl) \<times> 's train_state" where
  "train_samples ag fe tok criterion [] st epoch_loss = (Inr epoch_loss, st)"
| "train_samples ag fe tok criterion ((a, label) # rest) st epoch_loss =
     (let st1 = st\<lparr>st_store := zero_grad (st_optimizer st) (st_store st)\<rparr> in
      case fe a 16000 of
        Inl e \<Rightarrow> (Inl e, st1)
      | Inr feats \<Rightarrow>
          let decoder_input_ids = [ [pad_token_id tok] ] in
          (case forward_with_turn_end (st_model st1) (st_store st1) (input_features feats)
                  decoder_input_ids None of
             Inl e \<Rightarrow> (Inl e, st1)
           | Inr (_, turn_end_pred) \<Rightarrow>
               let target = \<lparr>shape = [1, 1], elems = (\<lambda>_. rnd float32 label)\<rparr> in
               (case criterion turn_end_pred target of
                  Inl e \<Rightarrow> (Inl e, st1)
                | Inr loss \<Rightarrow>
                    let st2 = st1\<lparr>st_store :=
                                backward (ag (st_model st1) (st_store st1) (input_features feats)
                                            decoder_input_ids target) (st_store st1)\<rparr>;
                        (opt', \<sigma>') = optimizer_step (st_optimizer st2) (st_store st2);
                        st3 = st2\<lparr>st_store := \<sigma>', st_optimizer := opt'\<rparr>
                    in train_samples ag fe tok criterion rest st3
                         (add_fl float64 epoch_loss loss))))"

definition train_single_epoch ::
  "autograd \<Rightarrow> real list list \<Rightarrow> real list \<Rightarrow> (real list \<Rightarrow> int \<Rightarrow> error + features)
     \<Rightarrow> tokenizer \<Rightarrow> (tensor \<Rightarrow> tensor \<Rightarrow> error + fl)
     \<Rightarrow> 's train_state \<Rightarrow> (error + fl) \<times> 's train_state" where
  "train_single_epoch ag smpls labels fe tok criterion st =
     (let st0 = st\<lparr>st_model := (st_model st)\<lparr>training := False, head_training := False\<rparr>\<rparr> in
      case turn_end_classifier (st_model st0) of
        None \<Rightarrow> (Inl (AttributeError ''NoneType object has no attribute train''), st0)
      | Some _ \<Rightarrow>
          let st1 = st0\<lparr>st_model := (st_model st0)\<lparr>head_training := True\<rparr>\<rparr> in
          (case train_samples ag fe tok criterion (zip smpls labels) st1 (Fin 0) of
             (Inl e, st') \<Rightarrow> (Inl e, st')
           | (Inr epoch_loss, st') \<Rightarrow>
               if length smpls = 0 then (Inl ZeroDivisionError, st')
               else (Inr (div_count float64 epoch_loss (length smpls)), st')))"

fun print_predictions ::
  "(real list \<Rightarrow> int \<Rightarrow> error + features) \<Rightarrow> tokenizer \<Rightarrow> CustomWhisperModel \<Rightarrow> store
     \<Rightarrow> (real list \<times> real) list \<Rightarrow> error + fl list" where
  "print_predictions fe tok m \<sigma> [] = Inr []"
| "print_predictions fe tok m \<sigma> ((a, label) # rest) =
     and_then (fe a 16000) (\<lambda>feats.
     and_then (forward_with_turn_end m \<sigma> (input_features feats) [ [pad_token_id tok] ] None)
       (\<lambda>(_, pred).
     and_then (item pred) (\<lambda>p.
     and_then (print_predictions fe tok m \<sigma> rest) (\<lambda>ps. Inr (p # ps)))))"

fun train_epochs ::
  "autograd \<Rightarrow> real list list \<Rightarrow> real list \<Rightarrow> (real list \<Rightarrow> int \<Rightarrow> error + features)
     \<Rightarrow> tokenizer \<Rightarrow> nat list \<Rightarrow> 's train_state \<Rightarrow> fl list
     \<Rightarrow> (error + fl list) \<times> 's train_state" where
  "train_epochs ag smpls labels fe tok [] st losses = (Inr losses, st)"
| "train_epochs ag smpls labels fe tok (epoch # rest) st losses =
     (case train_single_epoch ag smpls labels fe tok BCELoss st of
        (Inl e, st') \<Rightarrow> (Inl e, st')
      | (Inr loss, st') \<Rightarrow>
          if epoch mod 10 = 0
          then (case print_predictions fe tok (st_model st') (st_store st') (zip smpls labels) of
                  Inl e \<Rightarrow> (Inl e, st')
                | Inr _ \<Rightarrow> train_epochs ag smpls labels fe tok rest st' (losses @ [loss]))
          else train_epochs ag smpls labels fe tok rest st' (losses @ [loss]))"

text \<open>
  \<open>train_model\<close> builds the optimizer over \<open>model.turn_end_classifier.parameters()\<close> and
  nothing else. The optimizer's update rule and the initial state of its parameters are
  arguments, with the automatic differentiation and the sound-file library.
\<close>

definition train_model ::
  "librosa \<Rightarrow> autograd
     \<Rightarrow> (real \<Rightarrow> 's \<Rightarrow> (nat list \<Rightarrow> fl) \<Rightarrow> (nat list \<Rightarrow> fl) \<Rightarrow> (nat list \<Rightarrow> fl) \<times> 's) \<Rightarrow> 's
     \<Rightarrow> string \<Rightarrow> CustomWhisperModel \<Rightarrow> store \<Rightarrow> (real list \<Rightarrow> int \<Rightarrow> error + features)
     \<Rightarrow> tokenizer \<Rightarrow> int \<Rightarrow> (error + fl list) \<times> store \<times> CustomWhisperModel" where
  "train_model lib ag adam s0 audio_path m \<sigma> fe tok num_epochs =
     (case create_training_samples lib audio_path of
        Inl e \<Rightarrow> (Inl e, \<sigma>, m)
      | Inr (full_audio, partial_audio) \<Rightarrow>
          let smpls = [full_audio, partial_audio];
              labels = [1, 0]
          in (case turn_end_classifier m of
                None \<Rightarrow> (Inl (AttributeError ''NoneType object has no attribute parameters''), \<sigma>, m)
              | Some tec \<Rightarrow>
                  let opt = \<lparr>opt_params = TurnEndClassifier_parameters tec, lr = 0.001,
                             opt_state = (\<lambda>_. s0), update_rule = adam\<rparr>;
                      (r, st) = train_epochs ag smpls labels fe tok [0..<nat num_epochs]
                                  \<lparr>st_store = \<sigma>, st_model = m, st_optimizer = opt\<rparr> []
                  in (r, st_store st, st_model st)))"

section \<open>The two compressor streams and concrete inputs\<close>

text \<open>
  The feature compressor of a stream is the part of \<open>forward\<close> that belongs to it: the
  stream's linear reduction followed by its transpose, convolution stack, pooling and
  squeeze.
\<close>

definition compress_encoder :: "store \<Rightarrow> TurnEndClassifier \<Rightarrow> tensor \<Rightarrow> error + tensor" where
  "compress_encoder \<sigma> tec hidden_states =
     and_then (Linear_forward \<sigma> (encoder_reduce tec) hidden_states) (encoder_features \<sigma> tec)"

definition compress_decoder :: "store \<Rightarrow> TurnEndClassifier \<Rightarrow> tensor \<Rightarrow> error + tensor" where
  "compress_decoder \<sigma> tec hidden_states =
     and_then (Linear_forward \<sigma> (decoder_reduce tec) hidden_states) (decoder_features \<sigma> tec)"


definition kernel_error :: error where
  "kernel_error = RuntimeError ''Kernel size cannot be greater than actual input size''"

definition wf_format :: "format \<Rightarrow> bool" where
  "wf_format F \<longleftrightarrow> 0 < largest F \<and> largest F < overflow_from F"

text \<open>A store of trainable all-zero parameters and all-zero tensors, for concrete runs.\<close>

definition zero_store :: store where
  "zero_store = (\<lambda>_. \<lparr>data = (\<lambda>_. Fin 0), grad = None, requires_grad = True\<rparr>)"

definition zeros :: "nat list \<Rightarrow> tensor" where
  "zeros shp = \<lparr>shape = shp, elems = (\<lambda>_. Fin 0)\<rparr>"

definition zero_valued :: "tensor \<Rightarrow> bool" where
  "zero_valued t \<longleftrightarrow> (\<forall>idx. elems t idx = Fin 0)"

definition zero_data :: "store \<Rightarrow> bool" where
  "zero_data \<sigma> \<longleftrightarrow> (\<forall>a idx. data (\<sigma> a) idx = Fin 0)"

text \<open>
  A stand-in for the pretrained \<open>openai/whisper-tiny.en\<close> model on one 30-second
  window and one seed token: hidden size 384, 1500 encoder positions, the embedding
  output and four decoder layers. The inherited loader returns it with the store of the
  pretrained weights, in which the parameters are trainable except the encoder's position
  embedding, which the library loads frozen; base parameter 1 stands for it.
\<close>

definition pretrained_store :: store where
  "pretrained_store = zero_store(Base 1 := (zero_store (Base 1))\<lparr>requires_grad := False\<rparr>)"

definition tiny_en_outputs :: whisper_outputs where
  "tiny_en_outputs =
     \<lparr>logits = zeros [1, 1, 51864],
      encoder_last_hidden_state = zeros [1, 1500, 384],
      decoder_hidden_states =
        [zeros [1, 1, 384], zeros [1, 1, 384], zeros [1, 1, 384], zeros [1, 1, 384],
         zeros [1, 1, 384] ]\<rparr>"

definition tiny_en :: CustomWhisperModel where
  "tiny_en =
     \<lparr>config = \<lparr>d_model = 384, decoder_start_token_id = 50257\<rparr>,
      training = False,
      whisper_forward = (\<lambda>_ _ _ _ _. Inr tiny_en_outputs),
      turn_end_classifier = None,
      head_training = False\<rparr>"

definition hub_load :: "string \<Rightarrow> store \<Rightarrow> error + CustomWhisperModel \<times> store" where
  "hub_load name \<sigma> = Inr (tiny_en, pretrained_store)"


definition mismatch_error :: error where
  "mismatch_error = RuntimeError ''mat1 and mat2 shapes cannot be multiplied''"


text \<open>
  Concrete collaborators for the pipeline: the stand-in model with the notebook's head
  attached, a feature extractor that returns one padded 30-second window of 80-channel
  features, a sound file recorded at 8 kHz, and two files recorded at 16 kHz of which the
  second is the first with one second of audio put in front.
\<close>

definition tiny_en_with_head :: CustomWhisperModel where
  "tiny_en_with_head = tiny_en\<lparr>turn_end_classifier := Some (TurnEndClassifier_init 384 384 64)\<rparr>"

definition log_mel :: "real list \<Rightarrow> int \<Rightarrow> error + features" where
  "log_mel audio_array sr = Inr \<lparr>input_features = zeros [1, 80, 3000], attention_mask = None\<rparr>"

definition phone_call :: wav where
  "phone_call = \<lparr>native_rate = 8000, samples = replicate 8000 0\<rparr>"

definition disk :: librosa where
  "disk = \<lparr>files = (\<lambda>p. if p = ''call.wav'' then Some phone_call else None),
           resample = (\<lambda>xs r r'. replicate (nat (int (length xs) * r' div r)) 0)\<rparr>"

definition pipe :: TurnEndPipeline where
  "pipe = TurnEndPipeline_init tiny_en_with_head log_mel"

definition studio :: librosa where
  "studio = \<lparr>files = (\<lambda>p. if p = ''turn.wav'' then Some \<lparr>native_rate = 16000, samples = replicate 480000 0\<rparr>
                         else if p = ''long.wav''
                         then Some \<lparr>native_rate = 16000, samples = replicate 16000 1 @ replicate 480000 0\<rparr>
                         else None),
             resample = (\<lambda>xs r r'. xs)\<rparr>"


text \<open>
  Concrete collaborators for training: an automatic differentiation that reports the
  gradient 1 everywhere for every parameter, plain gradient descent as the update rule, a
  tokenizer, the optimizer the notebook builds over the head's parameters, and the states
  of one training step from the loaded store.
\<close>

definition all_ones :: autograd where
  "all_ones m \<sigma> x ids target a = Some (\<lambda>_. Fin 1)"

definition sgd ::
  "real \<Rightarrow> unit \<Rightarrow> (nat list \<Rightarrow> fl) \<Rightarrow> (nat list \<Rightarrow> fl) \<Rightarrow> (nat list \<Rightarrow> fl) \<times> unit" where
  "sgd rate s d g = (\<lambda>idx. add32 (d idx) (neg_fl (mul32 (Fin rate) (g idx))), s)"

definition tok :: tokenizer where
  "tok = \<lparr>pad_token_id = 50256\<rparr>"

definition head_optimizer :: "unit optimizer" where
  "head_optimizer =
     \<lparr>opt_params = TurnEndClassifier_parameters (TurnEndClassifier_init 384 384 64),
      lr = 0.001, opt_state = (\<lambda>_. ()), update_rule = sgd\<rparr>"

text \<open>
  The frame of the training loop: the optimizer keeps its parameter list, and every
  parameter outside that list keeps its values.
\<close>

definition frame :: "'s train_state \<Rightarrow> 's train_state \<Rightarrow> bool" where
  "frame st st' \<longleftrightarrow>
     opt_params (st_optimizer st') = opt_params (st_optimizer st) \<and>
     (\<forall>a. a \<notin> set (opt_params (st_optimizer st)) \<longrightarrow> data (st_store st' a) = data (st_store st a))"

definition st0 :: "unit train_state" where
  "st0 = \<lparr>st_store = pretrained_store, st_model = tiny_en_with_head,
          st_optimizer = head_optimizer\<rparr>"

definition trained_model :: CustomWhisperModel where
  "trained_model = tiny_en_with_head\<lparr>training := False, head_training := False, head_training := True\<rparr>"

definition after_backward :: store where
  "after_backward =
     backward (all_ones trained_model pretrained_store (zeros [1, 80, 3000]) [ [50256] ]
                 \<lparr>shape = [1, 1], elems = (\<lambda>_. rnd float32 1)\<rparr>) pretrained_store"




lemma and_then_Inr [simp]: "and_then (Inr v) f = f v"
  by (simp add: and_then_def)

lemma and_then_Inl [simp]: "and_then (Inl e) f = Inl e"
  by (simp add: and_then_def)

lemma and_then_eq_Inr: "and_then r f = Inr v \<longleftrightarrow> (\<exists>u. r = Inr u \<and> f u = Inr v)"
  by (cases r) simp_all

lemma Linear_forward_ok:
  assumes "shape x = [b, l, in_features L]"
  shows "\<exists>y. Linear_forward \<sigma> L x = Inr y \<and> shape y = [b, l, out_features L]"
  using assms by (simp add: Linear_forward_def)

lemma Linear_forward_mismatch:
  assumes "shape x = [b, l, d]" "d \<noteq> in_features L"
  shows "Linear_forward \<sigma> L x = Inl (RuntimeError ''mat1 and mat2 shapes cannot be multiplied'')"
  using assms by (simp add: Linear_forward_def)

lemma transpose_1_2_ok:
  assumes "shape x = [b, l, d]"
  shows "\<exists>y. transpose_1_2 x = Inr y \<and> shape y = [b, d, l]"
  using assms by (simp add: transpose_1_2_def)

lemma shape_relu [simp]: "shape (relu x) = shape x"
  by (simp add: relu_def)

lemma shape_sigmoid [simp]: "shape (sigmoid x) = shape x"
  by (simp add: sigmoid_def)

lemma pool_ok:
  assumes "shape x = [n, c, l]" "0 < c" "0 < l"
  shows "\<exists>y. AdaptiveMaxPool1d_forward k x = Inr y \<and> shape y = [n, c, k]"
  using assms by (simp add: AdaptiveMaxPool1d_forward_def)

lemma squeeze_last_shape:
  assumes "shape x = [n, c, 1]"
  shows "shape (squeeze_last x) = [n, c]"
  using assms by (simp add: squeeze_last_def)

lemma encoder_conv_ok:
  assumes "shape x = [n, h, l]" "27 \<le> l"
  shows "\<exists>y l'. Sequential_forward \<sigma> (encoder_conv (TurnEndClassifier_init ed dd h)) x = Inr y \<and>
           shape y = [n, h, l'] \<and> 0 < l'"
  using assms by (simp add: TurnEndClassifier_init_def Conv1d_forward_def) presburger

lemma encoder_conv_short:
  assumes "shape x = [n, h, l]" "l < 27"
  shows "Sequential_forward \<sigma> (encoder_conv (TurnEndClassifier_init ed dd h)) x = Inl kernel_error"
  using assms by (simp add: TurnEndClassifier_init_def Conv1d_forward_def kernel_error_def)

lemma list3_case:
  "(case xs of [n, c, l] \<Rightarrow> f n c l | _ \<Rightarrow> g) =
     (if length xs = 3 then f (xs ! 0) (xs ! 1) (xs ! 2) else g)"
  by (auto split: list.splits)

lemma length3_iff: "length xs = 3 \<longleftrightarrow> (\<exists>a b c. xs = [a, b, c])"
  by (auto simp add: length_Suc_conv eval_nat_numeral)

lemma Conv1d_forward_Inr:
  assumes "Conv1d_forward \<sigma> C x = Inr y"
  shows "\<exists>n l. shape x = [n, in_channels C, l] \<and> kernel_size C \<le> l + 2 * padding C \<and>
           shape y = [n, out_channels C, (l + 2 * padding C - kernel_size C) div stride C + 1]"
proof -
  from assms have len: "length (shape x) = 3"
    unfolding Conv1d_forward_def list3_case by (simp split: if_splits)
  then obtain n c l where s: "shape x = [n, c, l]"
    unfolding length3_iff by blast
  with assms show ?thesis
    by (auto simp add: Conv1d_forward_def split: if_splits)
qed

lemma encoder_conv_nonzero:
  assumes "Sequential_forward \<sigma> (encoder_conv (TurnEndClassifier_init ed dd h)) x = Inr y"
  shows "\<exists>n l'. shape y = [n, h, l'] \<and> 0 < l'"
proof -
  let ?C = "\<lambda>w b. \<lparr>in_channels = h, out_channels = h, kernel_size = 5, stride = 3, padding = 1,
                   conv_weight = w, conv_bias = b\<rparr>"
  from assms obtain u1 u2 u3 where
    u: "Conv1d_forward \<sigma> (?C (Head 4) (Head 5)) x = Inr u1"
       "Conv1d_forward \<sigma> (?C (Head 6) (Head 7)) (relu u1) = Inr u2"
       "Conv1d_forward \<sigma> (?C (Head 8) (Head 9)) (relu u2) = Inr u3"
       "y = relu u3"
    by (auto simp add: TurnEndClassifier_init_def and_then_eq_Inr)
  from Conv1d_forward_Inr [OF u(3)] u(4) show ?thesis
    by auto
qed

lemma decoder_conv_ok:
  assumes "shape x = [n, h, l]" "1 \<le> l"
  shows "\<exists>y. Sequential_forward \<sigma> (decoder_conv (TurnEndClassifier_init ed dd h)) x = Inr y \<and>
           shape y = [n, h, l]"
  using assms by (simp add: TurnEndClassifier_init_def Conv1d_forward_def)

lemma init_fields [simp]:
  "in_features (encoder_reduce (TurnEndClassifier_init ed dd h)) = ed"
  "out_features (encoder_reduce (TurnEndClassifier_init ed dd h)) = h"
  "in_features (decoder_reduce (TurnEndClassifier_init ed dd h)) = dd"
  "out_features (decoder_reduce (TurnEndClassifier_init ed dd h)) = h"
  "encoder_pool (TurnEndClassifier_init ed dd h) = 1"
  "decoder_pool (TurnEndClassifier_init ed dd h) = 1"
  by (simp_all add: TurnEndClassifier_init_def)

lemma encoder_features_ok:
  assumes "shape x = [b, l, h]" "27 \<le> l" "0 < h"
  shows "\<exists>v. encoder_features \<sigma> (TurnEndClassifier_init ed dd h) x = Inr v \<and> shape v = [b, h]"
proof -
  obtain t where t: "transpose_1_2 x = Inr t" "shape t = [b, h, l]"
    using transpose_1_2_ok [OF assms(1)] by blast
  obtain c l' where c: "Sequential_forward \<sigma> (encoder_conv (TurnEndClassifier_init ed dd h)) t = Inr c"
      "shape c = [b, h, l']" "0 < l'"
    using encoder_conv_ok [OF t(2) assms(2)] by blast
  obtain p where p: "AdaptiveMaxPool1d_forward 1 c = Inr p" "shape p = [b, h, 1]"
    using pool_ok [OF c(2) assms(3) c(3)] by blast
  show ?thesis
    using t c p by (simp add: encoder_features_def squeeze_last_shape)
qed

lemma encoder_features_short:
  assumes "shape x = [b, l, h]" "l < 27"
  shows "encoder_features \<sigma> (TurnEndClassifier_init ed dd h) x = Inl kernel_error"
proof -
  obtain t where t: "transpose_1_2 x = Inr t" "shape t = [b, h, l]"
    using transpose_1_2_ok [OF assms(1)] by blast
  show ?thesis
    using t encoder_conv_short [OF t(2) assms(2)] by (simp add: encoder_features_def)
qed

lemma decoder_features_ok:
  assumes "shape x = [b, l, h]" "1 \<le> l" "0 < h"
  shows "\<exists>v. decoder_features \<sigma> (TurnEndClassifier_init ed dd h) x = Inr v \<and> shape v = [b, h]"
proof -
  obtain t where t: "transpose_1_2 x = Inr t" "shape t = [b, h, l]"
    using transpose_1_2_ok [OF assms(1)] by blast
  obtain c where c: "Sequential_forward \<sigma> (decoder_conv (TurnEndClassifier_init ed dd h)) t = Inr c"
      "shape c = [b, h, l]"
    using decoder_conv_ok [OF t(2) assms(2)] by blast
  have "0 < l" using assms(2) by simp
  then obtain p where p: "AdaptiveMaxPool1d_forward 1 c = Inr p" "shape p = [b, h, 1]"
    using pool_ok [OF c(2) assms(3)] by blast
  show ?thesis
    using t c p by (simp add: decoder_features_def squeeze_last_shape)
qed

lemma compress_encoder_ok:
  assumes "shape x = [b, l, ed]" "27 \<le> l" "0 < h"
  shows "\<exists>v. compress_encoder \<sigma> (TurnEndClassifier_init ed dd h) x = Inr v \<and> shape v = [b, h]"
proof -
  obtain y where y: "Linear_forward \<sigma> (encoder_reduce (TurnEndClassifier_init ed dd h)) x = Inr y"
      "shape y = [b, l, h]"
    using Linear_forward_ok [of x b l "encoder_reduce (TurnEndClassifier_init ed dd h)" \<sigma>] assms(1)
    by auto
  show ?thesis
    using y encoder_features_ok [OF y(2) assms(2,3)] by (simp add: compress_encoder_def)
qed

lemma compress_encoder_short:
  assumes "shape x = [b, l, ed]" "l < 27"
  shows "compress_encoder \<sigma> (TurnEndClassifier_init ed dd h) x = Inl kernel_error"
proof -
  obtain y where y: "Linear_forward \<sigma> (encoder_reduce (TurnEndClassifier_init ed dd h)) x = Inr y"
      "shape y = [b, l, h]"
    using Linear_forward_ok [of x b l "encoder_reduce (TurnEndClassifier_init ed dd h)" \<sigma>] assms(1)
    by auto
  show ?thesis
    using y encoder_features_short [OF y(2) assms(2)] by (simp add: compress_encoder_def)
qed

lemma compress_decoder_ok:
  assumes "shape x = [b, l, dd]" "1 \<le> l" "0 < h"
  shows "\<exists>v. compress_decoder \<sigma> (TurnEndClassifier_init ed dd h) x = Inr v \<and> shape v = [b, h]"
proof -
  obtain y where y: "Linear_forward \<sigma> (decoder_reduce (TurnEndClassifier_init ed dd h)) x = Inr y"
      "shape y = [b, l, h]"
    using Linear_forward_ok [of x b l "decoder_reduce (TurnEndClassifier_init ed dd h)" \<sigma>] assms(1)
    by auto
  show ?thesis
    using y decoder_features_ok [OF y(2) assms(2,3)] by (simp add: compress_decoder_def)
qed


lemma and_then_neq_Inl:
  assumes "r \<noteq> Inl e" "\<And>v. f v \<noteq> Inl e"
  shows "and_then r f \<noteq> Inl e"
  using assms by (cases r) simp_all

lemma Linear_forward_no_assert: "Linear_forward \<sigma> L x \<noteq> Inl (AssertionError msg)"
  by (simp add: Linear_forward_def)

lemma Conv1d_forward_no_assert: "Conv1d_forward \<sigma> C x \<noteq> Inl (AssertionError msg)"
  unfolding Conv1d_forward_def list3_case by simp

lemma module_forward_no_assert: "module_forward \<sigma> m x \<noteq> Inl (AssertionError msg)"
  by (cases m) (simp_all add: Linear_forward_no_assert Conv1d_forward_no_assert)

lemma Sequential_forward_no_assert: "Sequential_forward \<sigma> ms x \<noteq> Inl (AssertionError msg)"
proof (induction ms arbitrary: x)
  case Nil
  show ?case by simp
next
  case (Cons m ms)
  show ?case
    by (simp add: and_then_neq_Inl module_forward_no_assert Cons.IH)
qed

lemma pool_no_assert: "AdaptiveMaxPool1d_forward k x \<noteq> Inl (AssertionError msg)"
  unfolding AdaptiveMaxPool1d_forward_def list3_case by simp

lemma transpose_no_assert: "transpose_1_2 x \<noteq> Inl (AssertionError msg)"
  by (simp add: transpose_1_2_def split: list.splits)

lemma cat_no_assert: "cat_dim1 x y \<noteq> Inl (AssertionError msg)"
  by (simp add: cat_dim1_def split: list.splits)

lemma encoder_features_no_assert: "encoder_features \<sigma> tec x \<noteq> Inl (AssertionError msg)"
  unfolding encoder_features_def
  by (intro and_then_neq_Inl transpose_no_assert Sequential_forward_no_assert pool_no_assert) simp

lemma decoder_features_no_assert: "decoder_features \<sigma> tec x \<noteq> Inl (AssertionError msg)"
  unfolding decoder_features_def
  by (intro and_then_neq_Inl transpose_no_assert Sequential_forward_no_assert pool_no_assert) simp

lemma forward_no_assert: "forward \<sigma> tec x y \<noteq> Inl (AssertionError msg)"
  unfolding forward_def
  by (intro and_then_neq_Inl Linear_forward_no_assert encoder_features_no_assert
      decoder_features_no_assert cat_no_assert Sequential_forward_no_assert)


lemma forward_encoder_mismatch:
  assumes "shape e = [b, l, d]" "d \<noteq> ed"
  shows "forward \<sigma> (TurnEndClassifier_init ed dd h) e y = Inl mismatch_error"
  using assms by (simp add: forward_def Linear_forward_def mismatch_error_def)

lemma forward_decoder_mismatch:
  assumes "shape e = [b, l, ed]" "shape y = [b', k, d]" "d \<noteq> dd"
  shows "forward \<sigma> (TurnEndClassifier_init ed dd h) e y = Inl mismatch_error"
  using assms by (simp add: forward_def Linear_forward_def mismatch_error_def)


lemma fc_ok:
  assumes "shape c = [b, 2 * h]"
  shows "\<exists>out. Sequential_forward \<sigma> (fc (TurnEndClassifier_init ed dd h)) c = Inr out \<and>
           shape out = [b, 1]"
  using assms by (simp add: TurnEndClassifier_init_def Linear_forward_def)

lemma cat_dim1_ok:
  assumes "shape x = [b, p]" "shape y = [b, q]"
  shows "\<exists>c. cat_dim1 x y = Inr c \<and> shape c = [b, p + q]"
  using assms by (simp add: cat_dim1_def)

lemma forward_ok:
  assumes "shape e = [b, l, ed]" "27 \<le> l" "shape y = [b, k, dd]" "1 \<le> k" "0 < h"
  shows "\<exists>out. forward \<sigma> (TurnEndClassifier_init ed dd h) e y = Inr out \<and> shape out = [b, 1]"
proof -
  let ?tec = "TurnEndClassifier_init ed dd h"
  obtain e1 where e1: "Linear_forward \<sigma> (encoder_reduce ?tec) e = Inr e1" "shape e1 = [b, l, h]"
    using Linear_forward_ok [of e b l "encoder_reduce ?tec" \<sigma>] assms(1) by auto
  obtain d1 where d1: "Linear_forward \<sigma> (decoder_reduce ?tec) y = Inr d1" "shape d1 = [b, k, h]"
    using Linear_forward_ok [of y b k "decoder_reduce ?tec" \<sigma>] assms(3) by auto
  obtain ef where ef: "encoder_features \<sigma> ?tec e1 = Inr ef" "shape ef = [b, h]"
    using encoder_features_ok [OF e1(2) assms(2,5)] by blast
  obtain df where df: "decoder_features \<sigma> ?tec d1 = Inr df" "shape df = [b, h]"
    using decoder_features_ok [OF d1(2) assms(4,5)] by blast
  obtain c where c: "cat_dim1 ef df = Inr c" "shape c = [b, h + h]"
    using cat_dim1_ok [OF ef(2) df(2)] by blast
  then have "shape c = [b, 2 * h]" by simp
  from fc_ok [OF this] e1 d1 ef df c show ?thesis
    by (simp add: forward_def)
qed



lemma max_samples_init [simp]: "max_samples (TurnEndPipeline_init m fe) = 480000"
  by (simp add: max_samples_def TurnEndPipeline_init_def py_int_def)

lemma pipeline_init_fields [simp]:
  "model (TurnEndPipeline_init m fe) = m"
  "feature_extractor (TurnEndPipeline_init m fe) = fe"
  "sampling_rate (TurnEndPipeline_init m fe) = 16000"
  by (simp_all add: TurnEndPipeline_init_def)

lemma slice_from_neg:
  assumes "0 < n"
  shows "slice_from (- int n) xs = (if length xs \<le> n then xs else drop (length xs - n) xs)"
  using assms by (auto simp add: slice_from_def Let_def nat_diff_distrib' max_def)

lemma slice_from_window [simp]:
  "slice_from (- 480000) xs = (if length xs \<le> 480000 then xs else drop (length xs - 480000) xs)"
  using slice_from_neg [of 480000 xs] by simp

lemma window_append:
  assumes "480000 \<le> length a"
  shows "slice_from (- 480000) (pre @ a) = slice_from (- 480000) a"
  using assms by (auto simp add: le_antisym)

lemma fold_zero_grad_data:
  "data (fold (\<lambda>a \<sigma>'. \<sigma>'(a := (\<sigma>' a)\<lparr>grad := None\<rparr>)) ps \<sigma> b) = data (\<sigma> b)"
  by (induction ps arbitrary: \<sigma>) simp_all

lemma zero_grad_data [simp]: "data (zero_grad opt \<sigma> a) = data (\<sigma> a)"
  by (simp add: zero_grad_def fold_zero_grad_data)

lemma fold_zero_grad_other:
  "b \<notin> set ps \<Longrightarrow> fold (\<lambda>a \<sigma>'. \<sigma>'(a := (\<sigma>' a)\<lparr>grad := None\<rparr>)) ps \<sigma> b = \<sigma> b"
  by (induction ps arbitrary: \<sigma>) simp_all

lemma zero_grad_other: "a \<notin> set (opt_params opt) \<Longrightarrow> zero_grad opt \<sigma> a = \<sigma> a"
  by (simp add: zero_grad_def fold_zero_grad_other)

lemma backward_data [simp]: "data (backward g \<sigma> a) = data (\<sigma> a)"
  by (simp add: backward_def split: option.splits)

lemma step_param_params [simp]: "opt_params (fst (step_param a os)) = opt_params (fst os)"
  by (cases os) (simp add: step_param_def split: option.splits prod.splits)

lemma step_param_other: "b \<noteq> a \<Longrightarrow> snd (step_param a os) b = snd os b"
  by (cases os) (simp add: step_param_def split: option.splits prod.splits)

lemma fold_step_param_params [simp]:
  "opt_params (fst (fold step_param ps os)) = opt_params (fst os)"
  by (induction ps arbitrary: os) simp_all

lemma fold_step_param_other:
  "b \<notin> set ps \<Longrightarrow> snd (fold step_param ps os) b = snd os b"
  by (induction ps arbitrary: os) (simp_all add: step_param_other)

lemma optimizer_step_params [simp]:
  "opt_params (fst (optimizer_step opt \<sigma>)) = opt_params opt"
  by (simp add: optimizer_step_def)

lemma optimizer_step_other:
  "a \<notin> set (opt_params opt) \<Longrightarrow> snd (optimizer_step opt \<sigma>) a = \<sigma> a"
  by (simp add: optimizer_step_def fold_step_param_other)

lemma frame_refl [simp]: "frame st st"
  by (simp add: frame_def)

lemma frame_trans: "frame st st' \<Longrightarrow> frame st' st'' \<Longrightarrow> frame st st''"
  by (simp add: frame_def)

lemma train_samples_frame:
  "frame st (snd (train_samples ag fe tk criterion xs st l))"
proof (induction xs arbitrary: st l)
  case Nil
  show ?case by simp
next
  case (Cons x xs)
  obtain a label where x: "x = (a, label)" by (cases x)
  let ?st1 = "st\<lparr>st_store := zero_grad (st_optimizer st) (st_store st)\<rparr>"
  have f1: "frame st ?st1" by (simp add: frame_def)
  show ?case
  proof (cases "fe a 16000")
    case (Inl e)
    then show ?thesis using f1 x by (simp add: Let_def)
  next
    case (Inr feats)
    note fe = this
    show ?thesis
    proof (cases "forward_with_turn_end (st_model ?st1) (st_store ?st1) (input_features feats)
                    [ [pad_token_id tk] ] None")
      case (Inl e)
      then show ?thesis using f1 x fe by (simp add: Let_def)
    next
      case (Inr res)
      obtain outs pred where res: "res = (outs, pred)" by (cases res)
      note fw = Inr [unfolded res]
      let ?target = "\<lparr>shape = [1, 1], elems = (\<lambda>_. rnd float32 label)\<rparr>"
      show ?thesis
      proof (cases "criterion pred ?target")
        case (Inl e)
        then show ?thesis using f1 x fe fw by (simp add: Let_def)
      next
        case (Inr loss)
        let ?st2 = "?st1\<lparr>st_store := backward (ag (st_model ?st1) (st_store ?st1)
                       (input_features feats) [ [pad_token_id tk] ] ?target) (st_store ?st1)\<rparr>"
        let ?os = "optimizer_step (st_optimizer ?st2) (st_store ?st2)"
        let ?st3 = "?st2\<lparr>st_store := snd ?os, st_optimizer := fst ?os\<rparr>"
        have f3: "frame st ?st3"
          by (simp add: frame_def optimizer_step_other)
        have "train_samples ag fe tk criterion (x # xs) st l
                = train_samples ag fe tk criterion xs ?st3 (add_fl float64 l loss)"
          using x fe fw Inr by (simp add: Let_def split_beta)
        then show ?thesis
          using frame_trans [OF f3 Cons.IH [of ?st3 "add_fl float64 l loss"] ] by simp
      qed
    qed
  qed
qed

lemma train_single_epoch_frame:
  "frame st (snd (train_single_epoch ag smpls labels fe tk criterion st))"
proof -
  let ?st0 = "st\<lparr>st_model := (st_model st)\<lparr>training := False, head_training := False\<rparr>\<rparr>"
  let ?st1 = "?st0\<lparr>st_model := (st_model ?st0)\<lparr>head_training := True\<rparr>\<rparr>"
  have f0: "frame st ?st0" and f1: "frame st ?st1"
    by (simp_all add: frame_def)
  show ?thesis
  proof (cases "turn_end_classifier (st_model st)")
    case None
    then show ?thesis using f0 by (simp add: train_single_epoch_def)
  next
    case (Some tec)
    let ?r = "train_samples ag fe tk criterion (zip smpls labels) ?st1 (Fin 0)"
    have "snd (train_single_epoch ag smpls labels fe tk criterion st) = snd ?r"
      using Some by (simp add: train_single_epoch_def Let_def split: prod.splits sum.splits)
    then show ?thesis
      using frame_trans [OF f1 train_samples_frame [of ?st1 ag fe tk criterion "zip smpls labels" "Fin 0"] ]
      by simp
  qed
qed

lemma train_epochs_frame:
  "frame st (snd (train_epochs ag smpls labels fe tk epochs st losses))"
proof (induction epochs arbitrary: st losses)
  case Nil
  show ?case by simp
next
  case (Cons epoch rest)
  obtain r1 st1 where r: "train_single_epoch ag smpls labels fe tk BCELoss st = (r1, st1)"
    by (cases "train_single_epoch ag smpls labels fe tk BCELoss st")
  have f: "frame st st1"
    using train_single_epoch_frame [of st ag smpls labels fe tk BCELoss] r by simp
  show ?case
  proof (cases r1)
    case (Inl e)
    then show ?thesis using r f by simp
  next
    case (Inr loss)
    have rest: "frame st (snd (train_epochs ag smpls labels fe tk rest st1 (losses @ [loss])))"
      using frame_trans [OF f Cons.IH [of st1 "losses @ [loss]"] ] .
    show ?thesis
    proof (cases "epoch mod 10 = 0")
      case True
      then show ?thesis
        using r Inr f rest
        by (cases "print_predictions fe tk (st_model st1) (st_store st1) (zip smpls labels)")
          simp_all
    next
      case False
      then show ?thesis using r Inr rest by simp
    qed
  qed
qed

lemma init_parameters:
  "TurnEndClassifier_parameters (TurnEndClassifier_init ed dd h) = map Head [0..<18]"
  by (simp add: TurnEndClassifier_parameters_def TurnEndClassifier_init_def Linear_parameters_def
      upt_rec [of _ 18] upt_rec [of _ 17] upt_rec [of _ 16] upt_rec [of _ 15] upt_rec [of _ 14]
      upt_rec [of _ 13] upt_rec [of _ 12] upt_rec [of _ 11] upt_rec [of _ 10] upt_rec [of _ 9]
      upt_rec [of _ 8] upt_rec [of _ 7] upt_rec [of _ 6] upt_rec [of _ 5] upt_rec [of _ 4]
      upt_rec [of _ 3] upt_rec [of _ 2] upt_rec [of _ 1])

lemma Base_not_head_parameter [simp]:
  "Base i \<notin> set (TurnEndClassifier_parameters (TurnEndClassifier_init ed dd h))"
  by (auto simp add: init_parameters)

lemma wf_float32 [simp]: "wf_format float32"
proof -
  have "(2::real) ^ 104 < 2 ^ 128" "(2::real) ^ 103 < 2 ^ 104"
    by (rule power_strict_increasing; simp)+
  then show ?thesis by (simp add: wf_format_def float32_def)
qed

lemma wf_float64 [simp]: "wf_format float64"
proof -
  have "(2::real) ^ 971 < 2 ^ 1024" "(2::real) ^ 970 < 2 ^ 971"
    by (rule power_strict_increasing; simp)+
  then show ?thesis by (simp add: wf_format_def float64_def)
qed

lemma rnd_in_range:
  "wf_format F \<Longrightarrow> - largest F \<le> x \<Longrightarrow> x \<le> largest F \<Longrightarrow> rnd F x = Fin x"
  by (simp add: rnd_def wf_format_def)

lemma rnd_zero [simp]: "wf_format F \<Longrightarrow> rnd F 0 = Fin 0"
  by (simp add: rnd_in_range wf_format_def)

lemma add_fl_NaN_right [simp]: "add_fl M a NaN = NaN"
  by (cases a) simp_all

lemma mul_fl_NaN_right [simp]: "mul_fl M a NaN = NaN"
  by (cases a) simp_all

lemma max_fl_NaN_right [simp]: "max_fl a NaN = NaN"
  by (cases a) simp_all

lemma foldl_add_NaN [simp]: "foldl (add_fl M) NaN xs = NaN"
  by (induction xs) simp_all

lemma foldl_add_zeros:
  assumes "wf_format M" "\<forall>x \<in> set xs. x = Fin 0"
  shows "foldl (add_fl M) (Fin 0) xs = Fin 0"
  using assms by (induction xs) simp_all

lemma sum_fl_zeros:
  assumes "wf_format M" "\<And>i. f i = Fin 0"
  shows "sum_fl M (map f xs) = Fin 0"
  unfolding sum_fl_def by (rule foldl_add_zeros) (simp_all add: assms)

lemma fold_max_zeros:
  assumes "\<And>t. f t = Fin 0"
  shows "fold (\<lambda>t m. max_fl m (f t)) ts (Fin 0) = Fin 0"
  by (induction ts) (simp_all add: assms)

lemma max_over_zeros:
  assumes "\<And>t. f t = Fin 0"
  shows "max_over f lo hi = Fin 0"
  by (simp add: max_over_def assms fold_max_zeros)






lemma Linear_forward_zero:
  assumes "zero_data \<sigma>" "zero_valued x" "Linear_forward \<sigma> L x = Inr y"
  shows "zero_valued y"
proof -
  have "y = \<lparr>shape = butlast (shape x) @ [out_features L],
             elems = (\<lambda>idx. add32 (sum32 (map (\<lambda>i. mul32 (data (\<sigma> (weight L)) [last idx, i])
                                         (elems x (butlast idx @ [i]))) [0..<in_features L]))
                    (data (\<sigma> (bias L)) [last idx]))\<rparr>"
    using assms(3) by (simp add: Linear_forward_def split: if_splits)
  moreover have "mul32 (data (\<sigma> (weight L)) [last idx, i]) (elems x (butlast idx @ [i])) = Fin 0" for idx i
    using assms(1,2) by (simp add: zero_data_def zero_valued_def)
  ultimately show ?thesis
    using assms(1) by (simp add: zero_valued_def zero_data_def sum_fl_zeros)
qed

lemma Conv1d_forward_zero:
  assumes "zero_data \<sigma>" "zero_valued x" "Conv1d_forward \<sigma> C x = Inr y"
  shows "zero_valued y"
proof -
  obtain n l where s: "shape x = [n, in_channels C, l]"
    using Conv1d_forward_Inr [OF assms(3)] by blast
  have p: "padded_read x p l' b c i = Fin 0" for p l' b c i
    using assms(2) by (simp add: padded_read_def zero_valued_def)
  have m: "mul32 (data (\<sigma> (conv_weight C)) w) (Fin 0) = Fin 0" for w
    using assms(1) by (simp add: zero_data_def)
  have inner: "sum32 (map (\<lambda>j. mul32 (data (\<sigma> (conv_weight C)) [oc, ci, j])
                 (padded_read x (padding C) l b ci (t * stride C + j))) [0..<kernel_size C]) = Fin 0"
    for oc ci b t
    by (rule sum_fl_zeros) (simp_all add: p m)
  have outer: "sum32 (map (\<lambda>ci. sum32 (map (\<lambda>j. mul32 (data (\<sigma> (conv_weight C)) [oc, ci, j])
                 (padded_read x (padding C) l b ci (t * stride C + j))) [0..<kernel_size C]))
                 [0..<in_channels C]) = Fin 0" for oc b t
    by (rule sum_fl_zeros) (simp_all add: inner)
  have b: "data (\<sigma> (conv_bias C)) w = Fin 0" for w
    using assms(1) by (simp add: zero_data_def)
  have "elems y idx = Fin 0" for idx
    using assms(3) s
    by (auto simp add: Conv1d_forward_def outer b split: if_splits list.splits)
  then show ?thesis by (simp add: zero_valued_def)
qed

lemma relu_zero: "zero_valued x \<Longrightarrow> zero_valued (relu x)"
  by (simp add: zero_valued_def relu_def)

lemma module_forward_zero:
  assumes "zero_data \<sigma>" "zero_valued x" "module_forward \<sigma> m x = Inr y" "m \<noteq> Sigmoid"
  shows "zero_valued y"
proof (cases m)
  case (ConvM C)
  then show ?thesis using assms Conv1d_forward_zero [of \<sigma> x C y] by simp
next
  case ReLU
  then show ?thesis using assms relu_zero [of x] by auto
next
  case (LinearM L)
  then show ?thesis using assms Linear_forward_zero [of \<sigma> x L y] by simp
next
  case Sigmoid
  then show ?thesis using assms by simp
qed

lemma Sequential_forward_zero:
  assumes "zero_data \<sigma>" "zero_valued x" "Sequential_forward \<sigma> ms x = Inr y" "Sigmoid \<notin> set ms"
  shows "zero_valued y"
  using assms
proof (induction ms arbitrary: x)
  case Nil
  then show ?case by simp
next
  case (Cons m ms)
  from Cons.prems(3) obtain u where u: "module_forward \<sigma> m x = Inr u"
      "Sequential_forward \<sigma> ms u = Inr y"
    by (auto simp add: and_then_eq_Inr)
  have "zero_valued u"
    using module_forward_zero [OF Cons.prems(1,2) u(1)] Cons.prems(4) by auto
  then show ?case
    using Cons.IH [OF Cons.prems(1) _ u(2)] Cons.prems(4) by simp
qed

lemma transpose_zero:
  assumes "zero_valued x" "transpose_1_2 x = Inr y"
  shows "zero_valued y"
  using assms by (auto simp add: transpose_1_2_def zero_valued_def split: list.splits)

lemma pool_zero:
  assumes "zero_valued x" "AdaptiveMaxPool1d_forward k x = Inr y"
  shows "zero_valued y"
proof -
  have "max_over (\<lambda>t. elems x [b, ch, t]) lo hi = Fin 0" for b ch lo hi
    by (rule max_over_zeros) (use assms(1) in \<open>simp add: zero_valued_def\<close>)
  then have "elems y idx = Fin 0" for idx
    using assms(2) unfolding AdaptiveMaxPool1d_forward_def list3_case
    by (auto split: if_splits list.splits)
  then show ?thesis by (simp add: zero_valued_def)
qed

lemma squeeze_last_zero: "zero_valued x \<Longrightarrow> zero_valued (squeeze_last x)"
  by (simp add: zero_valued_def squeeze_last_def)

lemma cat_dim1_Inr:
  assumes "cat_dim1 x y = Inr c"
  shows "\<exists>n a b rest. shape x = n # a # rest \<and> shape y = n # b # rest \<and>
           c = \<lparr>shape = n # (a + b) # rest,
                 elems = (\<lambda>idx. case idx of
                       i # j # r \<Rightarrow> if j < a then elems x (i # j # r) else elems y (i # (j - a) # r)
                     | _ \<Rightarrow> Fin 0)\<rparr>"
proof (cases "shape x")
  case Nil
  with assms show ?thesis by (simp add: cat_dim1_def)
next
  case (Cons n xs)
  note sx = this
  show ?thesis
  proof (cases xs)
    case Nil
    with assms sx show ?thesis by (simp add: cat_dim1_def)
  next
    case (Cons a rest)
    note sx2 = this
    show ?thesis
    proof (cases "shape y")
      case Nil
      with assms sx sx2 show ?thesis by (simp add: cat_dim1_def)
    next
      case (Cons n' ys)
      note sy = this
      show ?thesis
      proof (cases ys)
        case Nil
        with assms sx sx2 sy show ?thesis by (simp add: cat_dim1_def)
      next
        case (Cons b rest')
        with assms sx sx2 sy show ?thesis
          by (simp add: cat_dim1_def split: if_splits)
      qed
    qed
  qed
qed

lemma cat_zero:
  assumes "zero_valued x" "zero_valued y" "cat_dim1 x y = Inr c"
  shows "zero_valued c"
proof -
  have "elems c idx = Fin 0" for idx
    using cat_dim1_Inr [OF assms(3)] assms(1,2)
    by (elim exE conjE) (simp add: zero_valued_def split: list.splits)
  then show ?thesis by (simp add: zero_valued_def)
qed

lemma encoder_features_zero:
  assumes "zero_data \<sigma>" "zero_valued x"
    "encoder_features \<sigma> (TurnEndClassifier_init ed dd h) x = Inr y"
  shows "zero_valued y"
proof -
  from assms(3) obtain t c p where
    s: "transpose_1_2 x = Inr t"
       "Sequential_forward \<sigma> (encoder_conv (TurnEndClassifier_init ed dd h)) t = Inr c"
       "AdaptiveMaxPool1d_forward (encoder_pool (TurnEndClassifier_init ed dd h)) c = Inr p"
       "y = squeeze_last p"
    by (auto simp add: encoder_features_def and_then_eq_Inr)
  have n: "Sigmoid \<notin> set (encoder_conv (TurnEndClassifier_init ed dd h))"
    by (simp add: TurnEndClassifier_init_def)
  have "zero_valued t" using transpose_zero [OF assms(2) s(1)] .
  then have "zero_valued c" using Sequential_forward_zero [OF assms(1) _ s(2) n] by simp
  then have "zero_valued p" using pool_zero [OF _ s(3)] by simp
  then show ?thesis using s(4) squeeze_last_zero by simp
qed

lemma decoder_features_zero:
  assumes "zero_data \<sigma>" "zero_valued x"
    "decoder_features \<sigma> (TurnEndClassifier_init ed dd h) x = Inr y"
  shows "zero_valued y"
proof -
  from assms(3) obtain t c p where
    s: "transpose_1_2 x = Inr t"
       "Sequential_forward \<sigma> (decoder_conv (TurnEndClassifier_init ed dd h)) t = Inr c"
       "AdaptiveMaxPool1d_forward (decoder_pool (TurnEndClassifier_init ed dd h)) c = Inr p"
       "y = squeeze_last p"
    by (auto simp add: decoder_features_def and_then_eq_Inr)
  have n: "Sigmoid \<notin> set (decoder_conv (TurnEndClassifier_init ed dd h))"
    by (simp add: TurnEndClassifier_init_def)
  have "zero_valued t" using transpose_zero [OF assms(2) s(1)] .
  then have "zero_valued c" using Sequential_forward_zero [OF assms(1) _ s(2) n] by simp
  then have "zero_valued p" using pool_zero [OF _ s(3)] by simp
  then show ?thesis using s(4) squeeze_last_zero by simp
qed

lemma fc_zero_half:
  assumes "zero_data \<sigma>" "zero_valued c"
    "Sequential_forward \<sigma> (fc (TurnEndClassifier_init ed dd h)) c = Inr p"
  shows "elems p idx = Fin (1 / 2)"
proof -
  let ?L1 = "\<lparr>in_features = 2 * h, out_features = h, weight = Head 14, bias = Head 15\<rparr>"
  let ?L2 = "\<lparr>in_features = h, out_features = 1, weight = Head 16, bias = Head 17\<rparr>"
  from assms(3) obtain a b where
    s: "Linear_forward \<sigma> ?L1 c = Inr a" "Linear_forward \<sigma> ?L2 (relu a) = Inr b" "p = sigmoid b"
    by (auto simp add: TurnEndClassifier_init_def and_then_eq_Inr)
  have "zero_valued a" using Linear_forward_zero [OF assms(1,2) s(1)] .
  then have "zero_valued (relu a)" by (rule relu_zero)
  then have "zero_valued b" using Linear_forward_zero [OF assms(1) _ s(2)] by simp
  then show ?thesis using s(3) by (simp add: zero_valued_def sigmoid_def)
qed

lemma forward_zero_half:
  assumes "zero_data \<sigma>" "zero_valued e" "zero_valued y"
    "forward \<sigma> (TurnEndClassifier_init ed dd h) e y = Inr p"
  shows "elems p idx = Fin (1 / 2)"
proof -
  let ?tec = "TurnEndClassifier_init ed dd h"
  from assms(4) obtain e1 d1 ef df c where
    s: "Linear_forward \<sigma> (encoder_reduce ?tec) e = Inr e1"
       "Linear_forward \<sigma> (decoder_reduce ?tec) y = Inr d1"
       "encoder_features \<sigma> ?tec e1 = Inr ef"
       "decoder_features \<sigma> ?tec d1 = Inr df"
       "cat_dim1 ef df = Inr c"
       "Sequential_forward \<sigma> (fc ?tec) c = Inr p"
    by (auto simp add: forward_def and_then_eq_Inr)
  have "zero_valued e1" using Linear_forward_zero [OF assms(1,2) s(1)] .
  then have ef: "zero_valued ef" using encoder_features_zero [OF assms(1) _ s(3)] by simp
  have "zero_valued d1" using Linear_forward_zero [OF assms(1,3) s(2)] .
  then have df: "zero_valued df" using decoder_features_zero [OF assms(1) _ s(4)] by simp
  have "zero_valued c" using cat_zero [OF ef df s(5)] .
  then show ?thesis using fc_zero_half [OF assms(1) _ s(6)] by simp
qed

lemma zero_valued_zeros [simp]: "zero_valued (zeros shp)"
  by (simp add: zero_valued_def zeros_def)

lemma zero_data_zero_store [simp]: "zero_data zero_store"
  by (simp add: zero_data_def zero_store_def)

lemma zero_data_pretrained_store [simp]: "zero_data pretrained_store"
  by (simp add: zero_data_def pretrained_store_def zero_store_def)

lemma head_zero_forward:
  assumes "zero_data \<sigma>"
  shows "\<exists>p. forward_with_turn_end tiny_en_with_head \<sigma> x ids am = Inr (tiny_en_outputs, p)
   \<and> shape p = [1, 1] \<and> elems p [0, 0] = Fin (1 / 2)"
proof -
  let ?tec = "TurnEndClassifier_init 384 384 64"
  have se: "shape (zeros [1, 1500, 384]) = [1, 1500, 384]"
    and sd: "shape (zeros [1, 1, 384]) = [1, 1, 384]"
    by (simp_all add: zeros_def)
  obtain p where p: "forward \<sigma> ?tec (zeros [1, 1500, 384]) (zeros [1, 1, 384]) = Inr p"
      "shape p = [1, 1]"
    using forward_ok [OF se _ sd, of 64 \<sigma>] by auto
  have v: "elems p [0, 0] = Fin (1 / 2)"
    using forward_zero_half [OF assms _ _ p(1)] by simp
  have "forward_with_turn_end tiny_en_with_head \<sigma> x ids am = Inr (tiny_en_outputs, p)"
    using p(1) by (simp add: forward_with_turn_end_def tiny_en_with_head_def tiny_en_def
        tiny_en_outputs_def)
  then show ?thesis using p(2) v by blast
qed

lemma call_zero:
  "TurnEndPipeline_call lib pipe zero_store (Array a) = Inr \<lparr>turn_end_probability = Fin (1 / 2)\<rparr>"
proof -
  obtain p where p: "forward_with_turn_end tiny_en_with_head zero_store (zeros [1, 80, 3000])
      (decoder_seed pipe) None = Inr (tiny_en_outputs, p)" "shape p = [1, 1]"
      "elems p [0, 0] = Fin (1 / 2)"
    using head_zero_forward [OF zero_data_zero_store] by blast
  have "item (squeeze p) = Inr (Fin (1 / 2))"
    using p(2,3) by (simp add: item_def squeeze_def)
  then show ?thesis
    using p(1) by (simp add: TurnEndPipeline_call_def prepare_audio_features_def pipe_def
        TurnEndPipeline_init_def log_mel_def)
qed

lemma zero_grad_no_grads:
  assumes "\<And>a. grad (\<sigma> a) = None"
  shows "zero_grad opt \<sigma> = \<sigma>"
proof -
  have step: "\<sigma>(a := (\<sigma> a)\<lparr>grad := None\<rparr>) = \<sigma>" for a
    using assms [of a] by (simp add: fun_eq_iff)
  have idem: "fold f ps \<sigma> = \<sigma>" if "\<And>a. f a \<sigma> = \<sigma>" for f :: "pref \<Rightarrow> store \<Rightarrow> store" and ps
    using that by (induction ps) simp_all
  show ?thesis
    unfolding zero_grad_def by (rule idem) (rule step)
qed

lemma zero_grad_pretrained_store [simp]: "zero_grad opt pretrained_store = pretrained_store"
  by (rule zero_grad_no_grads) (simp add: pretrained_store_def zero_store_def)

lemma BCELoss_half:
  assumes "shape p = [1, 1]" "elems p [0, 0] = Fin (1 / 2)"
  shows "\<exists>loss. BCELoss p \<lparr>shape = [1, 1], elems = t\<rparr> = Inr loss"
  using assms by (simp add: BCELoss_def)

lemma one_epoch_state:
  "snd (train_single_epoch all_ones [replicate 16000 0] [1] log_mel tok BCELoss st0)
     = \<lparr>st_store = snd (optimizer_step head_optimizer after_backward), st_model = trained_model,
        st_optimizer = fst (optimizer_step head_optimizer after_backward)\<rparr>"
proof -
  have fw: "forward_with_turn_end trained_model pretrained_store x ids am
      = forward_with_turn_end tiny_en_with_head pretrained_store x ids am" for x ids am
    by (simp add: forward_with_turn_end_def trained_model_def tiny_en_with_head_def tiny_en_def)
  obtain p where p: "forward_with_turn_end trained_model pretrained_store
       (zeros [1, 80, 3000]) [ [50256] ] None = Inr (tiny_en_outputs, p)"
     "shape p = [1, 1]" "elems p [0, 0] = Fin (1 / 2)"
    unfolding fw using head_zero_forward [OF zero_data_pretrained_store] by blast
  obtain loss where loss: "BCELoss p \<lparr>shape = [1, 1], elems = (\<lambda>_. rnd float32 1)\<rparr> = Inr loss"
    using BCELoss_half [OF p(2,3)] by blast
  have tec: "turn_end_classifier (tiny_en_with_head\<lparr>training := False, head_training := False\<rparr>)
      = Some (TurnEndClassifier_init 384 384 64)"
    by (simp add: tiny_en_with_head_def)
  have ts: "train_samples all_ones log_mel tok BCELoss [(replicate 16000 0, 1)]
      \<lparr>st_store = pretrained_store, st_model = trained_model, st_optimizer = head_optimizer\<rparr> (Fin 0)
     = (Inr (add_fl float64 (Fin 0) loss),
        \<lparr>st_store = snd (optimizer_step head_optimizer after_backward), st_model = trained_model,
         st_optimizer = fst (optimizer_step head_optimizer after_backward)\<rparr>)"
    using p(1) loss by (simp add: log_mel_def tok_def Let_def split_beta after_backward_def)
  show ?thesis
    by (simp add: train_single_epoch_def st0_def tec Let_def trained_model_def [symmetric] ts
        del: train_samples.simps)
qed

lemma one_epoch:
  "grad (st_store (snd (train_single_epoch all_ones [replicate 16000 0] [1] log_mel tok BCELoss st0))
      (Base 0)) = Some (\<lambda>_. Fin 1)
   \<and> data (st_store (snd (train_single_epoch all_ones [replicate 16000 0] [1] log_mel tok BCELoss st0))
      (Head 17)) [0] = Fin (- (1 / 1000))
   \<and> data (st_store (snd (train_single_epoch all_ones [replicate 16000 0] [1] log_mel tok BCELoss st0))
      (Base 0)) [0] = Fin 0
   \<and> grad (st_store (snd (train_single_epoch all_ones [replicate 16000 0] [1] log_mel tok BCELoss st0))
      (Base 1)) = None"
proof -
  have b: "snd (optimizer_step head_optimizer after_backward) (Base i) = after_backward (Base i)" for i
    by (rule optimizer_step_other) (simp add: head_optimizer_def)
  have g: "grad (after_backward (Base 0)) = Some (\<lambda>_. Fin 1)" "data (after_backward (Base 0)) [0] = Fin 0"
    by (simp_all add: after_backward_def backward_def all_ones_def pretrained_store_def zero_store_def)
  have f: "\<not> requires_grad (pretrained_store (Base 1))" "grad (pretrained_store (Base 1)) = None"
    by (simp_all add: pretrained_store_def zero_store_def)
  have g1: "grad (after_backward (Base 1)) = None"
    unfolding after_backward_def backward_def all_ones_def using f by simp
  have r: "rnd float32 (1 / 1000) = Fin (1 / 1000)" "rnd float32 (- (1 / 1000)) = Fin (- (1 / 1000))"
    by (rule rnd_in_range [OF wf_float32]; simp add: float32_def)+
  have h: "data (snd (optimizer_step head_optimizer after_backward) (Head 17)) [0] = Fin (- (1 / 1000))"
    by (simp add: optimizer_step_def head_optimizer_def init_parameters after_backward_def
        backward_def all_ones_def pretrained_store_def zero_store_def step_param_def sgd_def r
      upt_rec [of _ 18] upt_rec [of _ 17] upt_rec [of _ 16] upt_rec [of _ 15] upt_rec [of _ 14]
      upt_rec [of _ 13] upt_rec [of _ 12] upt_rec [of _ 11] upt_rec [of _ 10] upt_rec [of _ 9]
      upt_rec [of _ 8] upt_rec [of _ 7] upt_rec [of _ 6] upt_rec [of _ 5] upt_rec [of _ 4]
      upt_rec [of _ 3] upt_rec [of _ 2] upt_rec [of _ 1])
  show ?thesis
    using g1 by (simp add: one_epoch_state b g h)
qed





subsection \<open>Training leaves the base model's parameters as they were\<close>

text \<open>
  Claim C1. For a model whose head was built by the constructor, whatever the sound file,
  the automatic differentiation, the optimizer's update rule, the feature extractor and
  the number of epochs, and whether \<open>train_model\<close> returns its losses or stops with an
  error: every base-model parameter has, in the store \<open>train_model\<close> leaves behind, the
  values it had before. The same holds for one call of \<open>train_single_epoch\<close> with an
  optimizer built over the head's parameters.
\<close>

theorem base_parameters_frozen:
  "(turn_end_classifier m = Some (TurnEndClassifier_init ed dd h) \<longrightarrow>
      data (fst (snd (train_model lib ag adam s0 audio_path m \<sigma> fe tk num_epochs)) (Base i))
        = data (\<sigma> (Base i)))
   \<and> (opt_params (st_optimizer st) = TurnEndClassifier_parameters (TurnEndClassifier_init ed dd h) \<longrightarrow>
      data (st_store (snd (train_single_epoch ag smpls labels fe tk criterion st)) (Base i))
        = data (st_store st (Base i)))"
proof (intro conjI impI)
  assume tec: "turn_end_classifier m = Some (TurnEndClassifier_init ed dd h)"
  show "data (fst (snd (train_model lib ag adam s0 audio_path m \<sigma> fe tk num_epochs)) (Base i))
        = data (\<sigma> (Base i))"
  proof (cases "create_training_samples lib audio_path")
    case (Inl e)
    then show ?thesis by (simp add: train_model_def)
  next
    case (Inr pr)
    obtain full_audio partial_audio where pr: "pr = (full_audio, partial_audio)" by (cases pr)
    let ?st = "\<lparr>st_store = \<sigma>, st_model = m,
                 st_optimizer = \<lparr>opt_params = TurnEndClassifier_parameters (TurnEndClassifier_init ed dd h),
                                  lr = 0.001, opt_state = (\<lambda>_. s0), update_rule = adam\<rparr>\<rparr>"
    let ?r = "train_epochs ag [full_audio, partial_audio] [1, 0] fe tk [0..<nat num_epochs] ?st []"
    have "fst (snd (train_model lib ag adam s0 audio_path m \<sigma> fe tk num_epochs)) = st_store (snd ?r)"
      using Inr pr tec by (simp add: train_model_def Let_def split_beta)
    moreover have "frame ?st (snd ?r)" by (rule train_epochs_frame)
    ultimately show ?thesis by (simp add: frame_def)
  qed
next
  assume "opt_params (st_optimizer st) = TurnEndClassifier_parameters (TurnEndClassifier_init ed dd h)"
  then show "data (st_store (snd (train_single_epoch ag smpls labels fe tk criterion st)) (Base i))
        = data (st_store st (Base i))"
    using train_single_epoch_frame [of st ag smpls labels fe tk criterion] by (simp add: frame_def)
qed

theorem base_parameters_frozen_witness:
  "data (fst (snd (train_model studio all_ones sgd () ''turn.wav'' tiny_en_with_head zero_store
                     log_mel tok 51)) (Base 0)) = data (zero_store (Base 0))
   \<and> data (st_store (snd (train_single_epoch all_ones [replicate 16000 0] [1] log_mel tok BCELoss
              \<lparr>st_store = zero_store, st_model = tiny_en_with_head, st_optimizer = head_optimizer\<rparr>))
            (Base 0)) = data (zero_store (Base 0))"
  using base_parameters_frozen [where m = tiny_en_with_head and ed = 384 and dd = 384 and h = 64
      and lib = studio and ag = all_ones and adam = sgd and ?s0.0 = "()" and audio_path = "''turn.wav''"
      and \<sigma> = zero_store and fe = log_mel and tk = tok and num_epochs = 51 and i = 0
      and st = "\<lparr>st_store = zero_store, st_model = tiny_en_with_head, st_optimizer = head_optimizer\<rparr>"
      and smpls = "[replicate 16000 0]" and labels = "[1]" and criterion = BCELoss]
  by (simp add: tiny_en_with_head_def head_optimizer_def)

subsection \<open>What attaching the head does to the base parameters\<close>

text \<open>
  Claim C2, as the code has it. \<open>from_pretrained\<close> returns the store exactly as the
  inherited loader left it: attaching the head changes no parameter and no
  \<open>requires_grad\<close> flag, so no base parameter is marked by this step. What keeps the
  base parameters from being updated is the optimizer: built over the head's parameters,
  as \<open>train_model\<close> builds it, its step leaves every base parameter as it is.
\<close>

theorem head_attachment_keeps_flags:
  "(from_pretrained super_from_pretrained name tec \<sigma> = Inr (m', \<sigma>') \<longrightarrow>
      (\<exists>m. super_from_pretrained name \<sigma> = Inr (m, \<sigma>') \<and> m' = m\<lparr>turn_end_classifier := tec\<rparr>))
   \<and> (opt_params opt = TurnEndClassifier_parameters (TurnEndClassifier_init ed dd h) \<longrightarrow>
        snd (optimizer_step opt \<sigma>) (Base i) = \<sigma> (Base i))"
proof (intro conjI impI)
  assume "from_pretrained super_from_pretrained name tec \<sigma> = Inr (m', \<sigma>')"
  then show "\<exists>m. super_from_pretrained name \<sigma> = Inr (m, \<sigma>') \<and> m' = m\<lparr>turn_end_classifier := tec\<rparr>"
    by (auto simp add: from_pretrained_def and_then_eq_Inr)
next
  assume "opt_params opt = TurnEndClassifier_parameters (TurnEndClassifier_init ed dd h)"
  then show "snd (optimizer_step opt \<sigma>) (Base i) = \<sigma> (Base i)"
    by (simp add: optimizer_step_other)
qed

text \<open>
  The claim as stated fails: after \<open>from_pretrained\<close> with a head, base parameter 0 of
  the loaded model is still trainable, and one training epoch leaves a gradient on it.
\<close>

theorem base_trainable_counterexample:
  "from_pretrained hub_load ''openai/whisper-tiny.en'' (Some (TurnEndClassifier_init 384 384 64))
       zero_store = Inr (tiny_en_with_head, pretrained_store)
   \<and> requires_grad (pretrained_store (Base 0))
   \<and> grad (st_store (snd (train_single_epoch all_ones [replicate 16000 0] [1] log_mel tok BCELoss st0))
        (Base 0)) = Some (\<lambda>_. Fin 1)"
  using one_epoch
  by (simp add: from_pretrained_def hub_load_def tiny_en_with_head_def pretrained_store_def
      zero_store_def)

theorem head_attachment_keeps_flags_witness:
  "(\<exists>m. hub_load ''openai/whisper-tiny.en'' zero_store = Inr (m, pretrained_store)
        \<and> tiny_en_with_head = m\<lparr>turn_end_classifier := Some (TurnEndClassifier_init 384 384 64)\<rparr>)
   \<and> snd (optimizer_step head_optimizer pretrained_store) (Base 0) = pretrained_store (Base 0)"
  using head_attachment_keeps_flags [where super_from_pretrained = hub_load
      and name = "''openai/whisper-tiny.en''" and tec = "Some (TurnEndClassifier_init 384 384 64)"
      and \<sigma> = zero_store and m' = tiny_en_with_head and \<sigma>' = pretrained_store and i = 0
      and opt = head_optimizer and ed = 384 and dd = 384 and h = 64]
    head_attachment_keeps_flags [where \<sigma> = pretrained_store and i = 0
      and opt = head_optimizer and ed = 384 and dd = 384 and h = 64]
  by (simp add: from_pretrained_def hub_load_def tiny_en_with_head_def head_optimizer_def)

subsection \<open>What the pipeline does about the sampling rate\<close>

text \<open>
  Claim C3, as the code has it. The pipeline never compares the audio's own sampling rate
  with the target rate. For a path it has the file loaded at the configured rate, which
  resamples a file recorded at another rate, and its assertion fails only when the
  configured rate itself is not 16000; for an array it makes no check and hands the
  windowed samples to the feature extractor as audio at the configured rate.
\<close>

theorem sampling_rate_handling:
  "(files lib p = Some w \<longrightarrow>
      prepare_audio_features lib self (Path p) =
        (if sampling_rate self \<noteq> 16000
         then Inl (AssertionError ''Expected sampling rate of 16kHz'')
         else feature_extractor self
                (slice_from (- max_samples self)
                   (if native_rate w = 16000 then samples w
                    else resample lib (samples w) (native_rate w) 16000))
                16000))
   \<and> prepare_audio_features lib self (Array a) =
        feature_extractor self (slice_from (- max_samples self) a) (sampling_rate self)"
  by (simp add: prepare_audio_features_def librosa_load_def)

text \<open>
  The claim as stated fails: a file recorded at 8 kHz, and the array of its samples, are
  both answered with a probability by the pipeline configured for 16 kHz.
\<close>

theorem sampling_rate_counterexample:
  "native_rate phone_call = 8000 \<and> sampling_rate pipe = 16000
   \<and> files disk ''call.wav'' = Some phone_call
   \<and> TurnEndPipeline_call disk pipe zero_store (Path ''call.wav'')
       = Inr \<lparr>turn_end_probability = Fin (1 / 2)\<rparr>
   \<and> TurnEndPipeline_call disk pipe zero_store (Array (samples phone_call))
       = Inr \<lparr>turn_end_probability = Fin (1 / 2)\<rparr>"
proof -
  obtain p where p: "forward_with_turn_end tiny_en_with_head zero_store (zeros [1, 80, 3000])
      (decoder_seed pipe) None = Inr (tiny_en_outputs, p)" "shape p = [1, 1]"
      "elems p [0, 0] = Fin (1 / 2)"
    using head_zero_forward [OF zero_data_zero_store] by blast
  have "item (squeeze p) = Inr (Fin (1 / 2))"
    using p(2,3) by (simp add: item_def squeeze_def)
  then have "TurnEndPipeline_call disk pipe zero_store (Path ''call.wav'')
       = Inr \<lparr>turn_end_probability = Fin (1 / 2)\<rparr>"
    using p(1) by (simp add: TurnEndPipeline_call_def prepare_audio_features_def pipe_def
        TurnEndPipeline_init_def log_mel_def librosa_load_def disk_def)
  then show ?thesis
    using call_zero [of disk "samples phone_call"]
    by (simp add: phone_call_def pipe_def TurnEndPipeline_init_def disk_def)
qed

theorem sampling_rate_handling_witness:
  "prepare_audio_features disk pipe (Path ''call.wav'')
     = Inr \<lparr>input_features = zeros [1, 80, 3000], attention_mask = None\<rparr>"
  using sampling_rate_handling [where lib = disk and p = "''call.wav''" and w = phone_call
      and self = pipe]
  by (simp add: disk_def pipe_def TurnEndPipeline_init_def log_mel_def)

subsection \<open>Windowing\<close>

text \<open>
  Claim C4. With the pipeline's defaults (30 s at 16 kHz, 480000 samples): audio of at
  most 480000 samples is given to the feature extractor in full; longer audio is cut to
  its last 480000 samples; and for audio of at least 480000 samples, putting any further
  audio in front of it changes neither the features nor the result of the call, for an
  array and for a file recorded at 16 kHz alike.
\<close>

theorem windowing:
  "(length a \<le> 480000 \<longrightarrow>
      prepare_audio_features lib (TurnEndPipeline_init m fe) (Array a) = fe a 16000)
   \<and> (480000 < length a \<longrightarrow>
      prepare_audio_features lib (TurnEndPipeline_init m fe) (Array a)
        = fe (drop (length a - 480000) a) 16000
      \<and> length (drop (length a - 480000) a) = 480000)
   \<and> (480000 \<le> length a \<longrightarrow>
      TurnEndPipeline_call lib (TurnEndPipeline_init m fe) \<sigma> (Array (pre @ a))
        = TurnEndPipeline_call lib (TurnEndPipeline_init m fe) \<sigma> (Array a))
   \<and> (files lib p = Some w \<and> files lib p' = Some w' \<and> native_rate w = 16000 \<and>
       native_rate w' = 16000 \<and> samples w' = pre @ samples w \<and> 480000 \<le> length (samples w) \<longrightarrow>
      TurnEndPipeline_call lib (TurnEndPipeline_init m fe) \<sigma> (Path p')
        = TurnEndPipeline_call lib (TurnEndPipeline_init m fe) \<sigma> (Path p))"
proof (intro conjI impI)
  assume "length a \<le> 480000"
  then show "prepare_audio_features lib (TurnEndPipeline_init m fe) (Array a) = fe a 16000"
    by (simp add: prepare_audio_features_def)
next
  assume "480000 < length a"
  then show "prepare_audio_features lib (TurnEndPipeline_init m fe) (Array a)
        = fe (drop (length a - 480000) a) 16000"
    by (simp add: prepare_audio_features_def)
next
  assume "480000 < length a"
  then show "length (drop (length a - 480000) a) = 480000"
    by simp
next
  assume "480000 \<le> length a"
  then have "prepare_audio_features lib (TurnEndPipeline_init m fe) (Array (pre @ a))
      = prepare_audio_features lib (TurnEndPipeline_init m fe) (Array a)"
    using window_append [of a pre] by (simp add: prepare_audio_features_def del: slice_from_window)
  then show "TurnEndPipeline_call lib (TurnEndPipeline_init m fe) \<sigma> (Array (pre @ a))
        = TurnEndPipeline_call lib (TurnEndPipeline_init m fe) \<sigma> (Array a)"
    by (simp add: TurnEndPipeline_call_def)
next
  assume a: "files lib p = Some w \<and> files lib p' = Some w' \<and> native_rate w = 16000 \<and>
       native_rate w' = 16000 \<and> samples w' = pre @ samples w \<and> 480000 \<le> length (samples w)"
  then have "prepare_audio_features lib (TurnEndPipeline_init m fe) (Path p')
      = prepare_audio_features lib (TurnEndPipeline_init m fe) (Path p)"
    using window_append [of "samples w" pre]
    by (simp add: prepare_audio_features_def librosa_load_def del: slice_from_window)
  then show "TurnEndPipeline_call lib (TurnEndPipeline_init m fe) \<sigma> (Path p')
        = TurnEndPipeline_call lib (TurnEndPipeline_init m fe) \<sigma> (Path p)"
    by (simp add: TurnEndPipeline_call_def)
qed

theorem windowing_witness:
  "prepare_audio_features studio pipe (Array [1, 2, 3]) = log_mel [1, 2, 3] 16000
   \<and> prepare_audio_features studio pipe (Array (replicate 480001 0))
       = log_mel (drop (480001 - 480000) (replicate 480001 0)) 16000
   \<and> TurnEndPipeline_call studio pipe zero_store (Array ([1, 2] @ replicate 480000 0))
       = TurnEndPipeline_call studio pipe zero_store (Array (replicate 480000 0))
   \<and> TurnEndPipeline_call studio pipe zero_store (Path ''long.wav'')
       = TurnEndPipeline_call studio pipe zero_store (Path ''turn.wav'')"
  using windowing [where a = "[1, 2, 3]" and lib = studio and m = tiny_en_with_head and fe = log_mel]
    windowing [where a = "replicate 480001 0" and lib = studio and m = tiny_en_with_head
      and fe = log_mel]
    windowing [where a = "replicate 480000 0" and pre = "[1, 2]" and lib = studio
      and m = tiny_en_with_head and fe = log_mel and \<sigma> = zero_store
      and p = "''turn.wav''" and p' = "''long.wav''"
      and w = "\<lparr>native_rate = 16000, samples = replicate 480000 0\<rparr>"
      and w' = "\<lparr>native_rate = 16000, samples = replicate 16000 1 @ replicate 480000 0\<rparr>"]
    windowing [where a = "replicate 480000 0" and pre = "replicate 16000 1" and lib = studio
      and m = tiny_en_with_head and fe = log_mel and \<sigma> = zero_store
      and p = "''turn.wav''" and p' = "''long.wav''"
      and w = "\<lparr>native_rate = 16000, samples = replicate 480000 0\<rparr>"
      and w' = "\<lparr>native_rate = 16000, samples = replicate 16000 1 @ replicate 480000 0\<rparr>"]
  by (simp add: pipe_def studio_def)

subsection \<open>Shapes of the compressor streams\<close>

text \<open>
  Claim C5, as the code has it. With a head built by the constructor for a positive
  \<open>hidden_dim\<close>: the encoder stream maps hidden states of shape
  \<open>[batch, length, encoder_dim]\<close> to a tensor of shape \<open>[batch, hidden_dim]\<close> whenever
  \<open>length\<close> is at least 27, and fails with the convolution's kernel-size error for every
  shorter input (the three stride-3 convolutions pad by one position on each side and
  nothing more); the decoder stream maps \<open>[batch, length, decoder_dim]\<close> to
  \<open>[batch, hidden_dim]\<close> for every \<open>length\<close> of at least 1; and whenever the encoder
  convolution stack returns, the length it hands to the pooling stage is not zero.
\<close>

theorem compress_shapes:
  "(0 < h \<and> shape x = [b, l, ed] \<and> 27 \<le> l \<longrightarrow>
      (\<exists>v. compress_encoder \<sigma> (TurnEndClassifier_init ed dd h) x = Inr v \<and> shape v = [b, h]))
   \<and> (shape x = [b, l, ed] \<and> l < 27 \<longrightarrow>
      compress_encoder \<sigma> (TurnEndClassifier_init ed dd h) x = Inl kernel_error)
   \<and> (0 < h \<and> shape y = [b, k, dd] \<and> 1 \<le> k \<longrightarrow>
      (\<exists>v. compress_decoder \<sigma> (TurnEndClassifier_init ed dd h) y = Inr v \<and> shape v = [b, h]))
   \<and> (Sequential_forward \<sigma> (encoder_conv (TurnEndClassifier_init ed dd h)) t = Inr c \<longrightarrow>
      (\<exists>n l'. shape c = [n, h, l'] \<and> 0 < l'))"
proof (intro conjI impI)
  assume "0 < h \<and> shape x = [b, l, ed] \<and> 27 \<le> l"
  then show "\<exists>v. compress_encoder \<sigma> (TurnEndClassifier_init ed dd h) x = Inr v \<and> shape v = [b, h]"
    using compress_encoder_ok by blast
next
  assume "shape x = [b, l, ed] \<and> l < 27"
  then show "compress_encoder \<sigma> (TurnEndClassifier_init ed dd h) x = Inl kernel_error"
    using compress_encoder_short by blast
next
  assume "0 < h \<and> shape y = [b, k, dd] \<and> 1 \<le> k"
  then show "\<exists>v. compress_decoder \<sigma> (TurnEndClassifier_init ed dd h) y = Inr v \<and> shape v = [b, h]"
    using compress_decoder_ok by blast
next
  assume "Sequential_forward \<sigma> (encoder_conv (TurnEndClassifier_init ed dd h)) t = Inr c"
  then show "\<exists>n l'. shape c = [n, h, l'] \<and> 0 < l'"
    by (rule encoder_conv_nonzero)
qed

text \<open>
  The claim as the specification states it fails: a hidden-state sequence of length 1
  given to the encoder stream of the notebook's head is not padded up to the receptive
  length, the first convolution refuses it.
\<close>

theorem compress_short_counterexample:
  "compress_encoder zero_store (TurnEndClassifier_init 384 384 64) (zeros [1, 1, 384])
     = Inl (RuntimeError ''Kernel size cannot be greater than actual input size'')"
  by (simp add: compress_encoder_def encoder_features_def Linear_forward_def transpose_1_2_def
      TurnEndClassifier_init_def Conv1d_forward_def zeros_def)

theorem compress_shapes_witness:
  "(\<exists>v. compress_encoder zero_store (TurnEndClassifier_init 384 384 64) (zeros [2, 1500, 384]) = Inr v
        \<and> shape v = [2, 64])
   \<and> compress_encoder zero_store (TurnEndClassifier_init 384 384 64) (zeros [2, 26, 384])
        = Inl kernel_error
   \<and> (\<exists>v. compress_decoder zero_store (TurnEndClassifier_init 384 384 64) (zeros [2, 20, 384]) = Inr v
        \<and> shape v = [2, 64])
   \<and> (\<exists>c n l'. Sequential_forward zero_store (encoder_conv (TurnEndClassifier_init 384 384 64))
                  (zeros [2, 64, 1500]) = Inr c \<and> shape c = [n, 64, l'] \<and> 0 < l')"
proof -
  have s: "shape (zeros [2, 1500, 384]) = [2, 1500, 384]" "shape (zeros [2, 26, 384]) = [2, 26, 384]"
    "shape (zeros [2, 20, 384]) = [2, 20, 384]" "shape (zeros [2, 64, 1500]) = [2, 64, 1500]"
    by (simp_all add: zeros_def)
  obtain c where c: "Sequential_forward zero_store (encoder_conv (TurnEndClassifier_init 384 384 64))
                       (zeros [2, 64, 1500]) = Inr c"
    using encoder_conv_ok [OF s(4), of zero_store 384 384] by auto
  show ?thesis
    using compress_shapes [of 64 "zeros [2, 1500, 384]" 2 1500 384 zero_store 384
                              "zeros [2, 20, 384]" 20 "zeros [2, 64, 1500]" c]
      compress_shapes [of 64 "zeros [2, 26, 384]" 2 26 384 zero_store 384
                          "zeros [2, 20, 384]" 20 "zeros [2, 64, 1500]" c]
      s c
    by auto
qed

subsection \<open>Calling without a head\<close>

text \<open>
  Claim C6. \<open>forward_with_turn_end\<close> on a model whose \<open>turn_end_classifier\<close> is
  \<open>None\<close> fails with the assertion's error, whatever the inputs, before the base model
  is run. With a head attached the call never ends in an \<open>AssertionError\<close> of its own:
  it can only pass on one that the base model's forward pass raised.
\<close>

theorem head_required:
  "(turn_end_classifier self = None \<longrightarrow>
      forward_with_turn_end self \<sigma> x ids am =
        Inl (AssertionError ''TurnEndClassifier must be set before calling forward_with_turn_end''))
   \<and> (turn_end_classifier self = Some tec \<and>
        whisper_forward self (training self) (base_values \<sigma>) x ids am \<noteq> Inl (AssertionError msg) \<longrightarrow>
      forward_with_turn_end self \<sigma> x ids am \<noteq> Inl (AssertionError msg))"
proof (intro conjI impI)
  assume "turn_end_classifier self = None"
  then show "forward_with_turn_end self \<sigma> x ids am =
        Inl (AssertionError ''TurnEndClassifier must be set before calling forward_with_turn_end'')"
    by (simp add: forward_with_turn_end_def)
next
  assume a: "turn_end_classifier self = Some tec \<and>
        whisper_forward self (training self) (base_values \<sigma>) x ids am \<noteq> Inl (AssertionError msg)"
  have "\<And>outs. (case decoder_hidden_states outs of
              [] \<Rightarrow> Inl (IndexError ''tuple index out of range'')
            | hs \<Rightarrow> and_then (forward \<sigma> tec (encoder_last_hidden_state outs) (last hs))
                  (\<lambda>p. Inr (outs, p))) \<noteq> Inl (AssertionError msg)"
  proof -
    fix outs
    show "(case decoder_hidden_states outs of
              [] \<Rightarrow> Inl (IndexError ''tuple index out of range'')
            | hs \<Rightarrow> and_then (forward \<sigma> tec (encoder_last_hidden_state outs) (last hs))
                  (\<lambda>p. Inr (outs, p))) \<noteq> Inl (AssertionError msg)"
      by (cases "decoder_hidden_states outs") (simp_all add: and_then_neq_Inl forward_no_assert)
  qed
  then have "and_then (whisper_forward self (training self) (base_values \<sigma>) x ids am)
      (\<lambda>outs. case decoder_hidden_states outs of
              [] \<Rightarrow> Inl (IndexError ''tuple index out of range'')
            | hs \<Rightarrow> and_then (forward \<sigma> tec (encoder_last_hidden_state outs) (last hs))
                  (\<lambda>p. Inr (outs, p))) \<noteq> Inl (AssertionError msg)"
    using a by (intro and_then_neq_Inl) simp_all
  with a show "forward_with_turn_end self \<sigma> x ids am \<noteq> Inl (AssertionError msg)"
    by (simp add: forward_with_turn_end_def)
qed

theorem head_required_witness:
  "forward_with_turn_end tiny_en zero_store (zeros [1, 80, 3000]) [ [50257] ] None =
     Inl (AssertionError ''TurnEndClassifier must be set before calling forward_with_turn_end'')
   \<and> forward_with_turn_end (tiny_en\<lparr>turn_end_classifier := Some (TurnEndClassifier_init 384 384 64)\<rparr>)
       zero_store (zeros [1, 80, 3000]) [ [50257] ] None
     \<noteq> Inl (AssertionError ''TurnEndClassifier must be set before calling forward_with_turn_end'')"
  using head_required [where self = tiny_en and \<sigma> = zero_store and x = "zeros [1, 80, 3000]"
      and ids = "[ [50257] ]" and am = None]
    head_required [where self = "tiny_en\<lparr>turn_end_classifier := Some (TurnEndClassifier_init 384 384 64)\<rparr>"
      and tec = "TurnEndClassifier_init 384 384 64" and \<sigma> = zero_store
      and x = "zeros [1, 80, 3000]" and ids = "[ [50257] ]" and am = None
      and msg = "''TurnEndClassifier must be set before calling forward_with_turn_end''"]
  by (simp add: tiny_en_def)

subsection \<open>The classifier's output is a probability or NaN\<close>




subsection \<open>Where a dimension mismatch shows\<close>

text \<open>
  Claim C9, as the code has it. Neither constructor looks at the base model's hidden
  size: \<open>TurnEndClassifier_init\<close> is total, and \<open>from_pretrained\<close> returns the loaded
  model with the head assigned whenever the inherited loader returns. When the hidden
  states of the base model have a last dimension other than \<open>encoder_dim\<close> or
  \<open>decoder_dim\<close>, the mismatch surfaces in \<open>forward_with_turn_end\<close>, as the shape
  error of the first linear reduction that meets it.
\<close>

theorem dimensions_checked_at_forward:
  "(super_from_pretrained name \<sigma> = Inr (m, \<sigma>') \<longrightarrow>
      from_pretrained super_from_pretrained name tec \<sigma> = Inr (m\<lparr>turn_end_classifier := tec\<rparr>, \<sigma>'))
   \<and> (turn_end_classifier self = Some (TurnEndClassifier_init ed dd h) \<and>
        whisper_forward self (training self) (base_values \<sigma>) x ids am = Inr outs \<and>
        decoder_hidden_states outs \<noteq> [] \<and>
        shape (encoder_last_hidden_state outs) = [b, l, d] \<and>
        shape (last (decoder_hidden_states outs)) = [b, k, d] \<and> (d \<noteq> ed \<or> d = ed \<and> d \<noteq> dd) \<longrightarrow>
      forward_with_turn_end self \<sigma> x ids am = Inl mismatch_error)"
proof (intro conjI impI)
  assume "super_from_pretrained name \<sigma> = Inr (m, \<sigma>')"
  then show "from_pretrained super_from_pretrained name tec \<sigma> = Inr (m\<lparr>turn_end_classifier := tec\<rparr>, \<sigma>')"
    by (simp add: from_pretrained_def)
next
  assume a: "turn_end_classifier self = Some (TurnEndClassifier_init ed dd h) \<and>
        whisper_forward self (training self) (base_values \<sigma>) x ids am = Inr outs \<and>
        decoder_hidden_states outs \<noteq> [] \<and>
        shape (encoder_last_hidden_state outs) = [b, l, d] \<and>
        shape (last (decoder_hidden_states outs)) = [b, k, d] \<and> (d \<noteq> ed \<or> d = ed \<and> d \<noteq> dd)"
  then have "forward \<sigma> (TurnEndClassifier_init ed dd h) (encoder_last_hidden_state outs)
               (last (decoder_hidden_states outs)) = Inl mismatch_error"
    using forward_encoder_mismatch forward_decoder_mismatch by blast
  with a show "forward_with_turn_end self \<sigma> x ids am = Inl mismatch_error"
    by (cases "decoder_hidden_states outs") (simp_all add: forward_with_turn_end_def)
qed

text \<open>
  The claim as stated fails: a head declared for hidden size 100 is attached to a base
  model of hidden size 384 and construction succeeds.
\<close>

theorem construction_unchecked_counterexample:
  "from_pretrained hub_load ''openai/whisper-tiny.en'' (Some (TurnEndClassifier_init 100 100 64))
      zero_store
     = Inr (tiny_en\<lparr>turn_end_classifier := Some (TurnEndClassifier_init 100 100 64)\<rparr>,
            pretrained_store)
   \<and> in_features (encoder_reduce (TurnEndClassifier_init 100 100 64)) \<noteq> d_model (config tiny_en)
   \<and> in_features (decoder_reduce (TurnEndClassifier_init 100 100 64)) \<noteq> d_model (config tiny_en)"
  by (simp add: from_pretrained_def hub_load_def tiny_en_def)

theorem dimensions_checked_at_forward_witness:
  "from_pretrained hub_load ''openai/whisper-tiny.en'' (Some (TurnEndClassifier_init 100 100 64))
      zero_store
     = Inr (tiny_en\<lparr>turn_end_classifier := Some (TurnEndClassifier_init 100 100 64)\<rparr>,
            pretrained_store)
   \<and> forward_with_turn_end (tiny_en\<lparr>turn_end_classifier := Some (TurnEndClassifier_init 100 100 64)\<rparr>)
        zero_store (zeros [1, 80, 3000]) [ [50257] ] None = Inl mismatch_error"
  using dimensions_checked_at_forward [where super_from_pretrained = hub_load
      and name = "''openai/whisper-tiny.en''" and \<sigma> = zero_store and m = tiny_en and \<sigma>' = pretrained_store
      and tec = "Some (TurnEndClassifier_init 100 100 64)"
      and self = "tiny_en\<lparr>turn_end_classifier := Some (TurnEndClassifier_init 100 100 64)\<rparr>"
      and ed = 100 and dd = 100 and h = 64 and x = "zeros [1, 80, 3000]" and ids = "[ [50257] ]"
      and am = None and outs = tiny_en_outputs and b = 1 and l = 1500 and d = 384 and k = 1]
  by (simp add: hub_load_def tiny_en_def tiny_en_outputs_def zeros_def)

subsection \<open>The single seed token and the decoder stream\<close>



end
